theory Spec2Isabelle
  imports Main "HOL-Library.Multiset" "HOL-Library.Char_ord" "HOL-Library.List_Lexorder" "HOL-Library.Product_Lexorder"
begin

section \<open>Python values, exceptions and the operations app.py applies to them\<close>

text \<open>
  The payloads of \<^verbatim>\<open>request.json\<close> and the documents of the MongoDB collection are
  loosely typed nested values. A dictionary is an association list read with \<open>map_of\<close>
  (its keys are meant to be distinct, as those of a Python dict are). JSON numbers with
  a fractional part are not part of the model.
\<close>

datatype pyval =
    PNone
  | PBool bool
  | PInt int
  | PStr string
  | PList "pyval list"
  | PDict "(string \<times> pyval) list"

type_synonym doc = "(string \<times> pyval) list"

datatype exn = KeyError | ValueError | AttributeError | TypeError | IndexError | OperationFailure

text \<open>Sequencing of computations that may raise: the first exception wins.\<close>

definition bind :: "exn + 'a \<Rightarrow> ('a \<Rightarrow> exn + 'b) \<Rightarrow> exn + 'b" where
  "bind m f = (case m of Inl e \<Rightarrow> Inl e | Inr v \<Rightarrow> f v)"

text \<open>\<^verbatim>\<open>obj[key]\<close> with a string key: KeyError on a dict without the key, TypeError on
  every value that is not a dict.\<close>

definition py_getitem :: "pyval \<Rightarrow> string \<Rightarrow> exn + pyval" where
  "py_getitem obj k =
     (case obj of
        PDict d \<Rightarrow> (case map_of d k of None \<Rightarrow> Inl KeyError | Some v \<Rightarrow> Inr v)
      | _ \<Rightarrow> Inl TypeError)"

text \<open>\<^verbatim>\<open>obj.get(key, default)\<close>: only a dict has the method.\<close>

definition py_get :: "pyval \<Rightarrow> string \<Rightarrow> pyval \<Rightarrow> exn + pyval" where
  "py_get obj k dflt =
     (case obj of
        PDict d \<Rightarrow> Inr (case map_of d k of None \<Rightarrow> dflt | Some v \<Rightarrow> v)
      | _ \<Rightarrow> Inl AttributeError)"

text \<open>Truth value of an object, as \<^verbatim>\<open>not x\<close> and \<^verbatim>\<open>if x\<close> test it.\<close>

fun truthy :: "pyval \<Rightarrow> bool" where
  "truthy PNone = False"
| "truthy (PBool b) = b"
| "truthy (PInt i) = (i \<noteq> 0)"
| "truthy (PStr s) = (s \<noteq> [])"
| "truthy (PList xs) = (xs \<noteq> [])"
| "truthy (PDict kvs) = (kvs \<noteq> [])"

subsection \<open>\<^verbatim>\<open>str.split\<close> and \<^verbatim>\<open>str.replace\<close> with a one-character pattern\<close>

fun split_on :: "char \<Rightarrow> string \<Rightarrow> string list" where
  "split_on c [] = [[]]"
| "split_on c (x # xs) =
     (if x = c then [] # split_on c xs
      else (case split_on c xs of
              [] \<Rightarrow> [[x]]
            | w # ws \<Rightarrow> (x # w) # ws))"

definition py_split :: "pyval \<Rightarrow> char \<Rightarrow> exn + string list" where
  "py_split obj c = (case obj of PStr s \<Rightarrow> Inr (split_on c s) | _ \<Rightarrow> Inl AttributeError)"

fun replace_char :: "char \<Rightarrow> string \<Rightarrow> string \<Rightarrow> string" where
  "replace_char c new [] = []"
| "replace_char c new (x # xs) =
     (if x = c then new @ replace_char c new xs else x # replace_char c new xs)"

definition py_replace :: "pyval \<Rightarrow> char \<Rightarrow> string \<Rightarrow> exn + string" where
  "py_replace obj c new =
     (case obj of PStr s \<Rightarrow> Inr (replace_char c new s) | _ \<Rightarrow> Inl AttributeError)"

subsection \<open>\<^verbatim>\<open>str(x)\<close> and the interpolation of a value into an f-string\<close>

definition digit_char :: "nat \<Rightarrow> char" where
  "digit_char n = ''0123456789abcdef'' ! n"

fun dec_nat :: "nat \<Rightarrow> string" where
  "dec_nat n = (if n < 10 then [digit_char n] else dec_nat (n div 10) @ [digit_char (n mod 10)])"

declare dec_nat.simps [simp del]

definition dec_int :: "int \<Rightarrow> string" where
  "dec_int i = (if i < 0 then CHR ''-'' # dec_nat (nat (- i)) else dec_nat (nat i))"

fun join :: "string \<Rightarrow> string list \<Rightarrow> string" where
  "join sep [] = []"
| "join sep [x] = x"
| "join sep (x # y # ys) = x @ sep @ join sep (y # ys)"

text \<open>
  \<^verbatim>\<open>repr\<close> of a string: single quotes unless the text holds a single quote and no
  double quote; the quote in use and the backslash are escaped, tab, newline and carriage
  return get their letter, the other control characters a two-digit hexadecimal escape.
  Bytes from 0x80 on (UTF-8 sequences of printable characters) are left as they are.
\<close>

definition repr_quote :: "string \<Rightarrow> char" where
  "repr_quote s =
     (if CHR 0x27 \<in> set s \<and> CHR 0x22 \<notin> set s then CHR 0x22 else CHR 0x27)"

definition repr_char :: "char \<Rightarrow> char \<Rightarrow> string" where
  "repr_char q c =
     (if c = q \<or> c = CHR 0x5C then [CHR 0x5C, c]
      else if c = CHR 0x09 then [CHR 0x5C, CHR ''t'']
      else if c = CHR 0x0A then [CHR 0x5C, CHR ''n'']
      else if c = CHR 0x0D then [CHR 0x5C, CHR ''r'']
      else if (of_char c :: nat) < 32 \<or> (of_char c :: nat) = 127
        then [CHR 0x5C, CHR ''x'', digit_char (of_char c div 16), digit_char (of_char c mod 16)]
      else [c])"

definition repr_str :: "string \<Rightarrow> string" where
  "repr_str s = (let q = repr_quote s in q # concat (map (repr_char q) s) @ [q])"

fun py_repr :: "pyval \<Rightarrow> string" where
  "py_repr PNone = ''None''"
| "py_repr (PBool b) = (if b then ''True'' else ''False'')"
| "py_repr (PInt i) = dec_int i"
| "py_repr (PStr s) = repr_str s"
| "py_repr (PList xs) = ''['' @ join '', '' (map py_repr xs) @ '']''"
| "py_repr (PDict kvs) =
     ''{'' @ join '', '' (map (\<lambda>kv. repr_str (fst kv) @ '': '' @ py_repr (snd kv)) kvs) @ ''}''"

definition py_str :: "pyval \<Rightarrow> string" where
  "py_str v = (case v of PStr s \<Rightarrow> s | _ \<Rightarrow> py_repr v)"

section \<open>The date-time values of the \<^verbatim>\<open>datetime\<close> library\<close>

text \<open>
  \<^verbatim>\<open>datetime.fromisoformat\<close> as the interpreter the service runs on (CPython 3.11)
  implements it, on the UTF-8 bytes of the string: the date is \<^verbatim>\<open>YYYY-MM-DD\<close>,
  \<^verbatim>\<open>YYYYMMDD\<close> or an ISO week date, one character of any kind separates it from the
  time, the time is \<^verbatim>\<open>HH[:MM[:SS]]\<close> with or without the colons and with a fraction
  after a point or a comma, and the offset is \<^verbatim>\<open>Z\<close> or a sign followed by a time of
  the same shape. The functions follow those of the library by name; a read past the
  end of the string yields the terminating zero byte, as it does there. Every failure
  is a ValueError. The offset of an aware value is kept in microseconds.
\<close>

record datetime =
  year :: nat
  month :: nat
  day :: nat
  hour :: nat
  minute :: nat
  second :: nat
  microsecond :: nat
  tzinfo :: "int option"

definition byte_at :: "string \<Rightarrow> nat \<Rightarrow> char" where
  "byte_at s i = (if i < length s then s ! i else CHR 0x00)"

definition is_digit :: "char \<Rightarrow> bool" where
  "is_digit c = (c \<in> set ''0123456789'')"

definition digit_val :: "char \<Rightarrow> nat" where
  "digit_val c = of_char c - 48"

text \<open>\<^verbatim>\<open>parse_digits\<close>: the number written by the \<open>n\<close> characters from \<open>pos\<close> on, when
  all of them are digits.\<close>

definition parse_digits :: "string \<Rightarrow> nat \<Rightarrow> nat \<Rightarrow> nat option" where
  "parse_digits s pos n =
     (let cs = map (byte_at s) [pos..<pos + n]
      in if list_all is_digit cs
         then Some (foldl (\<lambda>a c. 10 * a + digit_val c) 0 cs) else None)"

text \<open>The place of the character between date and time.\<close>

definition find_isoformat_datetime_separator :: "string \<Rightarrow> nat option" where
  "find_isoformat_datetime_separator s =
     (let n = length s in
      if n = 7 then Some 7
      else if byte_at s 4 = CHR ''-'' then
        (if byte_at s 5 = CHR ''W'' then
           (if n < 8 then None
            else if 8 < n \<and> byte_at s 8 = CHR ''-'' then
              (if n = 9 then None
               else if 10 < n \<and> is_digit (byte_at s 10) then Some 8
               else Some 10)
            else Some 8)
         else Some 10)
      else if byte_at s 4 = CHR ''W'' then
        (let idx = 7 + length (takeWhile is_digit (drop 7 s))
         in if idx < 9 then Some idx else if even idx then Some 7 else Some 8)
      else Some 8)"

subsection \<open>The calendar\<close>

definition is_leap :: "nat \<Rightarrow> bool" where
  "is_leap y = (y mod 4 = 0 \<and> (y mod 100 \<noteq> 0 \<or> y mod 400 = 0))"

definition days_in_month :: "nat \<Rightarrow> nat \<Rightarrow> nat" where
  "days_in_month y m =
     (if m = 2 then (if is_leap y then 29 else 28)
      else if m = 4 \<or> m = 6 \<or> m = 9 \<or> m = 11 then 30 else 31)"

definition days_before_year :: "nat \<Rightarrow> nat" where
  "days_before_year y =
     (let y1 = y - 1 in y1 * 365 + y1 div 4 - y1 div 100 + y1 div 400)"

definition days_before_month :: "nat \<Rightarrow> nat \<Rightarrow> nat" where
  "days_before_month y m = sum_list (map (days_in_month y) [1..<m])"

definition ymd2ord :: "nat \<Rightarrow> nat \<Rightarrow> nat \<Rightarrow> nat" where
  "ymd2ord y m d = days_before_year y + days_before_month y m + d"

text \<open>\<^verbatim>\<open>ord_to_ymd\<close>: the date of the day with ordinal \<open>n\<close>, where 1 January of year 1
  has ordinal 1. The cycles of 400, 100 and 4 years have 146097, 36524 and 1461 days.\<close>

definition ord2ymd :: "nat \<Rightarrow> nat \<times> nat \<times> nat" where
  "ord2ymd n =
     (let n0 = n - 1;
          n400 = n0 div 146097; r = n0 mod 146097;
          n100 = r div 36524; r1 = r mod 36524;
          n4 = r1 div 1461; r2 = r1 mod 1461;
          n1 = r2 div 365; r3 = r2 mod 365;
          y = n400 * 400 + 1 + n100 * 100 + n4 * 4 + n1
      in if n1 = 4 \<or> n100 = 4 then (y - 1, 12, 31)
         else
           (let leapyear = (n1 = 3 \<and> (n4 \<noteq> 24 \<or> n100 = 3));
                before = (\<lambda>m. sum_list (map (\<lambda>k. if k = 2 \<and> leapyear then 29
                                                  else days_in_month 1 k) [1..<m]));
                estimate = (r3 + 50) div 32;
                m = (if r3 < before estimate then estimate - 1 else estimate)
            in (y, m, r3 - before m + 1)))"

definition weekday :: "nat \<Rightarrow> nat \<Rightarrow> nat \<Rightarrow> nat" where
  "weekday y m d = (ymd2ord y m d + 6) mod 7"

definition iso_week1_monday :: "nat \<Rightarrow> nat" where
  "iso_week1_monday y =
     (let first_day = ymd2ord y 1 1;
          first_weekday = (first_day + 6) mod 7;
          week1_monday = first_day - first_weekday
      in if 3 < first_weekday then week1_monday + 7 else week1_monday)"

text \<open>\<^verbatim>\<open>iso_to_ymd\<close>: the date of a day given by ISO year, week and weekday. A year has a
  week 53 when it starts on a Thursday, or on a Wednesday and is a leap year.\<close>

definition iso_to_ymd :: "nat \<Rightarrow> nat \<Rightarrow> nat \<Rightarrow> (nat \<times> nat \<times> nat) option" where
  "iso_to_ymd y w d =
     (if y < 1 then None
      else if (w = 0 \<or> 53 \<le> w)
              \<and> \<not> (w = 53 \<and> (weekday y 1 1 = 3 \<or> (weekday y 1 1 = 2 \<and> is_leap y)))
        then None
      else if d = 0 \<or> 8 \<le> d then None
      else Some (ord2ymd (iso_week1_monday y + (w - 1) * 7 + (d - 1))))"

subsection \<open>The parser\<close>

text \<open>\<^verbatim>\<open>parse_isoformat_date\<close>: the date that ends at the separator's place \<open>n\<close>.\<close>

definition parse_isoformat_date :: "string \<Rightarrow> nat \<Rightarrow> (nat \<times> nat \<times> nat) option" where
  "parse_isoformat_date s n =
     (case parse_digits s 0 4 of
        None \<Rightarrow> None
      | Some y \<Rightarrow>
         (let uses_separator = (byte_at s 4 = CHR ''-'');
              cur = (if uses_separator then 5 else 4)
          in if byte_at s cur = CHR ''W'' then
               (case parse_digits s (cur + 1) 2 of
                  None \<Rightarrow> None
                | Some w \<Rightarrow>
                   if cur + 3 < n then
                     (if uses_separator \<and> byte_at s (cur + 3) \<noteq> CHR ''-'' then None
                      else (case parse_digits s (if uses_separator then cur + 4 else cur + 3) 1 of
                              None \<Rightarrow> None
                            | Some d \<Rightarrow> iso_to_ymd y w d))
                   else iso_to_ymd y w 1)
             else
               (case parse_digits s cur 2 of
                  None \<Rightarrow> None
                | Some m \<Rightarrow>
                   if uses_separator \<and> byte_at s (cur + 2) \<noteq> CHR ''-'' then None
                   else (case parse_digits s (if uses_separator then cur + 3 else cur + 2) 2 of
                           None \<Rightarrow> None
                         | Some d \<Rightarrow> Some (y, m, d)))))"

text \<open>
  The fraction of a second from \<open>p\<close> up to \<open>p_end\<close>: at most six digits count, a shorter
  fraction is scaled to microseconds, further digits are skipped. The flag says whether
  the character that follows is something else than the end of the string.
\<close>

definition parse_fraction :: "string \<Rightarrow> nat \<Rightarrow> nat \<Rightarrow> (bool \<times> nat) option" where
  "parse_fraction s p p_end =
     (let to_parse = min 6 (p_end - p) in
      case parse_digits s p to_parse of
        None \<Rightarrow> None
      | Some v \<Rightarrow>
         (let us = (if to_parse < 6 then v * 10 ^ (6 - to_parse) else v);
              q = p + to_parse + length (takeWhile is_digit (drop (p + to_parse) s))
          in Some (byte_at s q \<noteq> CHR 0x00, us)))"

definition is_fraction_separator :: "char \<Rightarrow> bool" where
  "is_fraction_separator c = (c = CHR ''.'' \<or> c = CHR '','')"

text \<open>
  \<^verbatim>\<open>parse_hh_mm_ss_ff\<close>: hour, minute, second and microsecond of the text from \<open>p\<close> up
  to \<open>p_end\<close>, with the loop over the three components unrolled. Whether colons separate
  the components is decided by the character after the hour. The flag of the result
  says whether the parse did not stop at the end of the string.
\<close>

definition parse_hh_mm_ss_ff ::
  "string \<Rightarrow> nat \<Rightarrow> nat \<Rightarrow> (bool \<times> nat \<times> nat \<times> nat \<times> nat) option" where
  "parse_hh_mm_ss_ff s p p_end =
     (case parse_digits s p 2 of
        None \<Rightarrow> None
      | Some h \<Rightarrow>
         (let c0 = byte_at s (p + 2); has_separator = (c0 = CHR '':'') in
          if p_end \<le> p + 3 then Some (c0 \<noteq> CHR 0x00, h, 0, 0, 0)
          else if is_fraction_separator c0 then
            (case parse_fraction s (p + 3) p_end of
               None \<Rightarrow> None
             | Some (trailing, us) \<Rightarrow> Some (trailing, h, 0, 0, us))
          else
            (let q = (if has_separator then p + 3 else p + 2) in
             case parse_digits s q 2 of
               None \<Rightarrow> None
             | Some m \<Rightarrow>
                (let c1 = byte_at s (q + 2) in
                 if p_end \<le> q + 3 then Some (c1 \<noteq> CHR 0x00, h, m, 0, 0)
                 else if is_fraction_separator c1 then
                   (case parse_fraction s (q + 3) p_end of
                      None \<Rightarrow> None
                    | Some (trailing, us) \<Rightarrow> Some (trailing, h, m, 0, us))
                 else if has_separator \<and> c1 \<noteq> CHR '':'' then None
                 else
                   (let r = (if has_separator then q + 3 else q + 2) in
                    case parse_digits s r 2 of
                      None \<Rightarrow> None
                    | Some sec \<Rightarrow>
                       (let c2 = byte_at s (r + 2) in
                        if p_end \<le> r + 3 then Some (c2 \<noteq> CHR 0x00, h, m, sec, 0)
                        else if has_separator \<and> c2 \<noteq> CHR '':''
                                \<and> \<not> is_fraction_separator c2 then None
                        else
                          (case parse_fraction s
                                  (if has_separator \<or> is_fraction_separator c2
                                   then r + 3 else r + 2) p_end of
                             None \<Rightarrow> None
                           | Some (trailing, us) \<Rightarrow> Some (trailing, h, m, sec, us))))))))"

definition is_tz_char :: "char \<Rightarrow> bool" where
  "is_tz_char c = (c = CHR ''Z'' \<or> c = CHR ''+'' \<or> c = CHR ''-'')"

text \<open>
  \<^verbatim>\<open>parse_isoformat_time\<close>: the time that starts at \<open>start\<close>. The offset begins at the
  first \<^verbatim>\<open>Z\<close>, \<^verbatim>\<open>+\<close> or \<^verbatim>\<open>-\<close>; an offset of no whole second is UTC.
\<close>

definition parse_isoformat_time ::
  "string \<Rightarrow> nat \<Rightarrow> ((nat \<times> nat \<times> nat \<times> nat) \<times> int option) option" where
  "parse_isoformat_time s start =
     (let n = length s;
          tz = start + length (takeWhile (\<lambda>c. \<not> is_tz_char c) (drop start s))
      in case parse_hh_mm_ss_ff s start tz of
           None \<Rightarrow> None
         | Some (trailing, h, m, sec, us) \<Rightarrow>
            if n \<le> tz then (if trailing then None else Some ((h, m, sec, us), None))
            else if byte_at s tz = CHR ''Z'' then
              (if byte_at s (tz + 1) \<noteq> CHR 0x00 then None
               else Some ((h, m, sec, us), Some 0))
            else
              (case parse_hh_mm_ss_ff s (tz + 1) n of
                 None \<Rightarrow> None
               | Some (trailing', th, tm, ts, tus) \<Rightarrow>
                  if trailing' then None
                  else
                    (let secs = int th * 3600 + int tm * 60 + int ts;
                         total = secs * 1000000 + int tus;
                         off = (if secs = 0 then 0
                                else if byte_at s tz = CHR ''-'' then - total else total)
                     in Some ((h, m, sec, us), Some off))))"

text \<open>The number of bytes of the UTF-8 character that starts with byte \<open>c\<close>.\<close>

definition utf8_len :: "char \<Rightarrow> nat" where
  "utf8_len c =
     (if (of_char c :: nat) < 128 then 1
      else if 240 \<le> (of_char c :: nat) then 4
      else if 224 \<le> (of_char c :: nat) then 3
      else 2)"

text \<open>The checks of the fields that the constructors of \<^verbatim>\<open>datetime\<close> and
  \<^verbatim>\<open>timezone\<close> make.\<close>

definition new_datetime ::
  "nat \<times> nat \<times> nat \<Rightarrow> nat \<times> nat \<times> nat \<times> nat \<Rightarrow> int option \<Rightarrow> exn + datetime" where
  "new_datetime d t tz =
     (case d of (y, mo, dd) \<Rightarrow> case t of (h, mi, s, us) \<Rightarrow>
        if 1 \<le> y \<and> y \<le> 9999 \<and> 1 \<le> mo \<and> mo \<le> 12 \<and> 1 \<le> dd \<and> dd \<le> days_in_month y mo
           \<and> h \<le> 23 \<and> mi \<le> 59 \<and> s \<le> 59 \<and> us \<le> 999999
           \<and> (case tz of None \<Rightarrow> True | Some off \<Rightarrow> \<bar>off\<bar> < 86400000000)
        then Inr \<lparr>year = y, month = mo, day = dd, hour = h, minute = mi, second = s,
                  microsecond = us, tzinfo = tz\<rparr>
        else Inl ValueError)"

text \<open>The place where the time starts: after the separator character.\<close>

definition time_start :: "string \<Rightarrow> nat \<Rightarrow> nat" where
  "time_start s sep = sep + utf8_len (byte_at s sep)"

definition fromisoformat :: "string \<Rightarrow> exn + datetime" where
  "fromisoformat date_string =
     (if length date_string < 7 then Inl ValueError
      else
        (case find_isoformat_datetime_separator date_string of
           None \<Rightarrow> Inl ValueError
         | Some sep \<Rightarrow>
            (case parse_isoformat_date date_string sep of
               None \<Rightarrow> Inl ValueError
             | Some d \<Rightarrow>
                if sep < length date_string then
                  (case parse_isoformat_time date_string (time_start date_string sep) of
                     None \<Rightarrow> Inl ValueError
                   | Some (t, tz) \<Rightarrow> new_datetime d t tz)
                else new_datetime d (0, 0, 0, 0) None)))"

subsection \<open>\<^verbatim>\<open>strftime\<close>\<close>

text \<open>
  The directives the source uses, as the C library of the platform (glibc, C locale)
  renders them: \<^verbatim>\<open>%d\<close>, \<^verbatim>\<open>%I\<close> and \<^verbatim>\<open>%M\<close> are zero-padded to two digits,
  \<^verbatim>\<open>%Y\<close> is the year in decimal without padding, \<^verbatim>\<open>%B\<close> is the full English month
  name and \<^verbatim>\<open>%p\<close> is AM or PM. Any other character of the format is copied.
\<close>

definition pad :: "nat \<Rightarrow> nat \<Rightarrow> string" where
  "pad w n = replicate (w - length (dec_nat n)) CHR ''0'' @ dec_nat n"

definition month_name :: "nat \<Rightarrow> string" where
  "month_name m =
     [''January'', ''February'', ''March'', ''April'', ''May'', ''June'', ''July'',
      ''August'', ''September'', ''October'', ''November'', ''December''] ! (m - 1)"

definition hour12 :: "nat \<Rightarrow> nat" where
  "hour12 h = (if h mod 12 = 0 then 12 else h mod 12)"

definition directive :: "datetime \<Rightarrow> char \<Rightarrow> string" where
  "directive dt c =
     (if c = CHR ''d'' then pad 2 (day dt)
      else if c = CHR ''B'' then month_name (month dt)
      else if c = CHR ''Y'' then dec_nat (year dt)
      else if c = CHR ''I'' then pad 2 (hour12 (hour dt))
      else if c = CHR ''M'' then pad 2 (minute dt)
      else if c = CHR ''p'' then (if hour dt < 12 then ''AM'' else ''PM'')
      else if c = CHR ''%'' then ''%''
      else [CHR ''%'', c])"

fun strftime :: "datetime \<Rightarrow> string \<Rightarrow> string" where
  "strftime dt (a # b # rest) =
     (if a = CHR ''%'' then directive dt b @ strftime dt rest
      else a # strftime dt (b # rest))"
| "strftime dt rest = rest"

section \<open>The formatter: \<^verbatim>\<open>format_event\<close>\<close>

text \<open>\<^verbatim>\<open>event_data.get(key, default)\<close> on the document itself, which is a dict.\<close>

definition dict_get :: "doc \<Rightarrow> string \<Rightarrow> pyval \<Rightarrow> pyval" where
  "dict_get d k dflt = (case map_of d k of None \<Rightarrow> dflt | Some v \<Rightarrow> v)"

text \<open>The text chosen by \<^verbatim>\<open>action\<close> once the timestamp is rendered (lines 50 to 57).\<close>

definition event_text :: "pyval \<Rightarrow> pyval \<Rightarrow> pyval \<Rightarrow> pyval \<Rightarrow> string \<Rightarrow> string" where
  "event_text author action from_branch to_branch timestamp =
     (if action = PStr ''PUSH''
      then py_str author @ '' pushed to '' @ py_str to_branch @ '' on '' @ timestamp
      else if action = PStr ''PULL_REQUEST''
      then py_str author @ '' submitted a pull request from '' @ py_str from_branch
           @ '' to '' @ py_str to_branch @ '' on '' @ timestamp
      else if action = PStr ''MERGE''
      then py_str author @ '' merged branch '' @ py_str from_branch
           @ '' to '' @ py_str to_branch @ '' on '' @ timestamp
      else ''Unknown action: '' @ py_str action @ '' by '' @ py_str author)"

text \<open>The body of the \<^verbatim>\<open>try\<close> block (lines 31 to 57 of app.py).\<close>

definition format_event_try :: "doc \<Rightarrow> exn + string" where
  "format_event_try event_data =
     bind (py_getitem (PDict event_data) ''author'') (\<lambda>author.
     bind (py_getitem (PDict event_data) ''action'') (\<lambda>action.
       let from_branch = dict_get event_data ''from_branch'' (PStr []);
           to_branch = dict_get event_data ''to_branch'' (PStr []);
           raw_timestamp = dict_get event_data ''timestamp'' PNone
       in if \<not> truthy raw_timestamp then Inr ''Event with missing timestamp''
          else
            bind (py_replace raw_timestamp CHR ''Z'' ''+00:00'') (\<lambda>replaced.
            bind (fromisoformat replaced) (\<lambda>parsed_time.
              Inr (event_text author action from_branch to_branch
                     (strftime parsed_time ''%d %B %Y - %I:%M %p UTC''))))))"

text \<open>
  The \<^verbatim>\<open>except (ValueError, KeyError)\<close> clause: these two exceptions are replaced by the
  sentinel string, every other exception leaves the function. What \<^verbatim>\<open>print\<close> writes
  to the console is not part of the result and is left out.
\<close>

definition format_event :: "doc \<Rightarrow> exn + string" where
  "format_event event_data =
     (case format_event_try event_data of
        Inr s \<Rightarrow> Inr s
      | Inl e \<Rightarrow>
          if e = ValueError \<or> e = KeyError
          then Inr (''Could not display event due to a data error: ''
                    @ py_str (dict_get event_data ''request_id'' (PStr ''Unknown ID'')))
          else Inl e)"

section \<open>The event store\<close>

text \<open>
  The MongoDB collection is an external service. It is modelled as the list of its
  documents in insertion order, together with the server's evaluation of operator
  expressions, and with the three operations the source calls: \<^verbatim>\<open>find_one\<close> with a
  filter on \<^verbatim>\<open>request_id\<close> and \<^verbatim>\<open>action\<close>, \<^verbatim>\<open>insert_one\<close>, and
  \<^verbatim>\<open>find().sort('timestamp', DESCENDING).limit(n)\<close>.

  The values of the filter come from the payload. A value that is a document whose
  first key begins with \<^verbatim>\<open>$\<close> is an operator expression: what it matches, or the
  error it is refused with, is the server's business and is the component
  \<open>operators\<close> of the store, which nothing here restricts. Any other value is matched
  by equality: a field matches when it holds that value or is an array with that value
  among its elements, and a missing field matches null.

  The \<^verbatim>\<open>_id\<close> field that the store adds to an inserted document is left out:
  nothing in app.py reads it. An insertion succeeds for every document.
\<close>

record store =
  documents :: "doc list"
  operators :: "pyval \<Rightarrow> exn + (pyval option \<Rightarrow> bool)"

definition field :: "doc \<Rightarrow> string \<Rightarrow> pyval" where
  "field d k = dict_get d k PNone"

definition is_operator_doc :: "pyval \<Rightarrow> bool" where
  "is_operator_doc q =
     (case q of
        PDict ((k, v) # kvs) \<Rightarrow> (case k of c # cs \<Rightarrow> c = CHR ''$'' | [] \<Rightarrow> False)
      | _ \<Rightarrow> False)"

definition eq_match :: "pyval \<Rightarrow> pyval option \<Rightarrow> bool" where
  "eq_match q x =
     (case x of
        None \<Rightarrow> q = PNone
      | Some v \<Rightarrow> v = q \<or> (case v of PList xs \<Rightarrow> q \<in> set xs | _ \<Rightarrow> False))"

definition field_filter :: "store \<Rightarrow> pyval \<Rightarrow> exn + (pyval option \<Rightarrow> bool)" where
  "field_filter st q = (if is_operator_doc q then operators st q else Inr (eq_match q))"

definition find_one :: "pyval \<Rightarrow> pyval \<Rightarrow> store \<Rightarrow> exn + doc option" where
  "find_one request_id action st =
     bind (field_filter st request_id) (\<lambda>f.
     bind (field_filter st action) (\<lambda>g.
       Inr (List.find (\<lambda>d. f (map_of d ''request_id'') \<and> g (map_of d ''action''))
              (documents st))))"

definition insert_one :: "doc \<Rightarrow> store \<Rightarrow> store" where
  "insert_one d st = st\<lparr>documents := documents st @ [d]\<rparr>"






section \<open>The webhook handler: \<^verbatim>\<open>github_webhook\<close>\<close>

text \<open>\<^verbatim>\<open>xs[-1]\<close>.\<close>

definition py_last :: "'a list \<Rightarrow> exn + 'a" where
  "py_last xs = (case xs of [] \<Rightarrow> Inl IndexError | _ \<Rightarrow> Inr (last xs))"

text \<open>Lines 79 to 91: the record of a push that has a head commit.\<close>

definition push_event_doc :: "pyval \<Rightarrow> exn + doc" where
  "push_event_doc data =
     bind (py_getitem data ''pusher'') (\<lambda>p.
     bind (py_getitem p ''name'') (\<lambda>pusher.
     bind (py_getitem data ''ref'') (\<lambda>ref.
     bind (py_split ref CHR ''/'') (\<lambda>parts.
     bind (py_last parts) (\<lambda>to_branch.
     bind (py_getitem data ''after'') (\<lambda>commit_hash.
     bind (py_getitem data ''head_commit'') (\<lambda>hc.
     bind (py_getitem hc ''timestamp'') (\<lambda>timestamp.
       Inr [(''request_id'', commit_hash),
            (''author'', pusher),
            (''action'', PStr ''PUSH''),
            (''from_branch'', PStr []),
            (''to_branch'', PStr to_branch),
            (''timestamp'', timestamp)]))))))))"

text \<open>Lines 98 to 105: the record of an opened pull request.\<close>

definition opened_event_doc :: "pyval \<Rightarrow> exn + doc" where
  "opened_event_doc pr_data =
     bind (py_getitem pr_data ''id'') (\<lambda>pr_id.
     bind (py_getitem pr_data ''user'') (\<lambda>user.
     bind (py_getitem user ''login'') (\<lambda>login.
     bind (py_getitem pr_data ''head'') (\<lambda>head.
     bind (py_getitem head ''ref'') (\<lambda>head_ref.
     bind (py_getitem pr_data ''base'') (\<lambda>base.
     bind (py_getitem base ''ref'') (\<lambda>base_ref.
     bind (py_getitem pr_data ''created_at'') (\<lambda>created_at.
       Inr [(''request_id'', PStr (py_str pr_id)),
            (''author'', login),
            (''action'', PStr ''PULL_REQUEST''),
            (''from_branch'', head_ref),
            (''to_branch'', base_ref),
            (''timestamp'', created_at)]))))))))"

text \<open>Lines 108 to 115: the record of a merged pull request.\<close>

definition merged_event_doc :: "pyval \<Rightarrow> exn + doc" where
  "merged_event_doc pr_data =
     bind (py_getitem pr_data ''id'') (\<lambda>pr_id.
     bind (py_get pr_data ''merged_by'' (PDict [])) (\<lambda>merged_by.
     bind (py_get merged_by ''login'' (PStr ''Unknown'')) (\<lambda>login.
     bind (py_getitem pr_data ''head'') (\<lambda>head.
     bind (py_getitem head ''ref'') (\<lambda>head_ref.
     bind (py_getitem pr_data ''base'') (\<lambda>base.
     bind (py_getitem base ''ref'') (\<lambda>base_ref.
     bind (py_getitem pr_data ''merged_at'') (\<lambda>merged_at.
       Inr [(''request_id'', PStr (py_str pr_id)),
            (''author'', login),
            (''action'', PStr ''MERGE''),
            (''from_branch'', head_ref),
            (''to_branch'', base_ref),
            (''timestamp'', merged_at)]))))))))"

text \<open>
  Lines 72 to 115: what the handler makes of the event before it touches the store.
  \<open>Ignored\<close> is the early return of line 77; \<open>Produced\<close> carries the final value of
  \<^verbatim>\<open>event_doc\<close>, which is \<^verbatim>\<open>None\<close> when no branch assigned it.
\<close>

datatype outcome = Ignored | Produced "doc option"

definition event_doc_of :: "string option \<Rightarrow> pyval \<Rightarrow> exn + outcome" where
  "event_doc_of event_type data =
     (if event_type = Some ''push'' then
        bind (py_get data ''head_commit'' PNone) (\<lambda>hc.
          if \<not> truthy hc then Inr Ignored
          else bind (push_event_doc data) (\<lambda>d. Inr (Produced (Some d))))
      else if event_type = Some ''pull_request'' then
        bind (py_get data ''action'' PNone) (\<lambda>action.
        bind (py_get data ''pull_request'' (PDict [])) (\<lambda>pr_data.
          if action = PStr ''opened''
          then bind (opened_event_doc pr_data) (\<lambda>d. Inr (Produced (Some d)))
          else if action = PStr ''closed''
          then bind (py_get pr_data ''merged'' PNone) (\<lambda>merged.
                 if truthy merged
                 then bind (merged_event_doc pr_data) (\<lambda>d. Inr (Produced (Some d)))
                 else Inr (Produced None))
          else Inr (Produced None)))
      else Inr (Produced None))"

text \<open>Lines 117 to 123: the duplicate check and the insertion.\<close>

definition store_event :: "doc \<Rightarrow> store \<Rightarrow> exn + store" where
  "store_event event_doc st =
     (if truthy (PDict event_doc) then
        bind (py_getitem (PDict event_doc) ''request_id'') (\<lambda>request_id.
        bind (py_getitem (PDict event_doc) ''action'') (\<lambda>action.
        bind (find_one request_id action st) (\<lambda>found.
          if found = None
          then Inr (insert_one event_doc st)
          else Inr st)))
      else Inr st)"

text \<open>The handler: an exception is the failure of the request, and leaves the store
  as it was; otherwise the status text, the HTTP code and the store after the call.\<close>

definition github_webhook ::
  "string option \<Rightarrow> pyval \<Rightarrow> store \<Rightarrow> exn + ((string \<times> nat) \<times> store)" where
  "github_webhook event_type data st =
     bind (event_doc_of event_type data) (\<lambda>out.
       case out of
         Ignored \<Rightarrow> Inr ((''ignored, no head_commit'', 200), st)
       | Produced None \<Rightarrow> Inr ((''success'', 200), st)
       | Produced (Some event_doc) \<Rightarrow>
           bind (store_event event_doc st) (\<lambda>st'. Inr ((''success'', 200), st')))"

section \<open>The query: \<^verbatim>\<open>get_events\<close>\<close>



section \<open>The sub-fields a rule requires\<close>

text \<open>
  The sub-fields that each rule of the handler reads with a subscript, as paths of keys
  from the value the rule reads them from: the payload for a push, the pull request for
  the other two. A path is missing when a key on it is absent or the value it reaches
  before its last key is not a dict.
\<close>

fun lookup_path :: "pyval \<Rightarrow> string list \<Rightarrow> pyval option" where
  "lookup_path v [] = Some v"
| "lookup_path (PDict d) (k # ks) =
     (case map_of d k of None \<Rightarrow> None | Some v \<Rightarrow> lookup_path v ks)"
| "lookup_path _ (k # ks) = None"

definition push_required :: "string list list" where
  "push_required = [[''pusher'', ''name''], [''ref''], [''after''], [''head_commit'', ''timestamp'']]"

definition opened_required :: "string list list" where
  "opened_required =
     [[''id''], [''user'', ''login''], [''head'', ''ref''], [''base'', ''ref''], [''created_at'']]"

definition merged_required :: "string list list" where
  "merged_required = [[''id''], [''head'', ''ref''], [''base'', ''ref''], [''merged_at'']]"

definition missing_required :: "pyval \<Rightarrow> string list list \<Rightarrow> bool" where
  "missing_required v paths = list_ex (\<lambda>p. lookup_path v p = None) paths"

section \<open>The deduplication key\<close>

text \<open>
  The pair that \<^verbatim>\<open>find_one\<close> is asked for, and the invariant that no two stored
  records share it. A value is plain when the store matches it by equality alone: it is
  neither an operator expression nor an array, and a store is plain when the two key
  fields of its records are no arrays.
\<close>

definition doc_key :: "doc \<Rightarrow> pyval \<times> pyval" where
  "doc_key d = (field d ''request_id'', field d ''action'')"

definition dedup_inv :: "store \<Rightarrow> bool" where
  "dedup_inv st = distinct (map doc_key (documents st))"

definition is_array :: "pyval \<Rightarrow> bool" where
  "is_array v = (case v of PList xs \<Rightarrow> True | _ \<Rightarrow> False)"

definition plain_key :: "doc \<Rightarrow> bool" where
  "plain_key d =
     (\<not> is_array (field d ''request_id'') \<and> \<not> is_operator_doc (field d ''request_id'')
      \<and> \<not> is_array (field d ''action''))"

definition plain_store :: "store \<Rightarrow> bool" where
  "plain_store st = list_all plain_key (documents st)"

text \<open>
  A server that knows the operators \<^verbatim>\<open>$eq\<close> and \<^verbatim>\<open>$ne\<close> and refuses every other
  operator expression, for the runs on concrete stores: \<^verbatim>\<open>$ne\<close> matches what the
  equality does not match.
\<close>

definition eq_ne_operators :: "pyval \<Rightarrow> exn + (pyval option \<Rightarrow> bool)" where
  "eq_ne_operators q =
     (case q of
        PDict [(k, v)] \<Rightarrow>
          if k = ''$eq'' then Inr (eq_match v)
          else if k = ''$ne'' then Inr (\<lambda>x. \<not> eq_match v x)
          else Inl OperationFailure
      | _ \<Rightarrow> Inl OperationFailure)"

definition empty_store :: store where
  "empty_store = \<lparr>documents = [], operators = eq_ne_operators\<rparr>"

section \<open>The order of the query's result\<close>




section \<open>The normalisation of the timestamp as the specification words it\<close>

text \<open>
  "If it ends with literal Z, treat that as UTC offset +00:00": only a final \<^verbatim>\<open>Z\<close> is
  replaced. \<open>spec_timestamp_text\<close> is the timestamp text this reading renders;
  \<open>timestamp_pattern\<close> is the pattern "DD MonthName YYYY - HH:MM AM/PM UTC" written out
  on the fields of a date-time value, with the year in decimal.
\<close>

definition spec_normalize_timestamp :: "string \<Rightarrow> string" where
  "spec_normalize_timestamp ts =
     (if ts \<noteq> [] \<and> last ts = CHR ''Z'' then butlast ts @ ''+00:00'' else ts)"

definition spec_timestamp_text :: "string \<Rightarrow> exn + string" where
  "spec_timestamp_text ts =
     bind (fromisoformat (spec_normalize_timestamp ts)) (\<lambda>dt.
       Inr (strftime dt ''%d %B %Y - %I:%M %p UTC''))"

definition timestamp_pattern :: "datetime \<Rightarrow> string" where
  "timestamp_pattern dt =
     pad 2 (day dt) @ '' '' @ month_name (month dt) @ '' '' @ dec_nat (year dt) @ '' - ''
     @ pad 2 (hour12 (hour dt)) @ '':'' @ pad 2 (minute dt) @ '' ''
     @ (if hour dt < 12 then ''AM'' else ''PM'') @ '' UTC''"

section \<open>The instant a timestamp denotes\<close>




section \<open>Properties\<close>

subsection \<open>Auxiliary facts\<close>

lemma bind_Inr [simp]: "bind (Inr v) f = f v" by (simp add: bind_def)
lemma bind_Inl [simp]: "bind (Inl e) f = Inl e" by (simp add: bind_def)

lemma bind_eq_Inr: "bind m f = Inr y \<longleftrightarrow> (\<exists>v. m = Inr v \<and> f v = Inr y)"
  by (cases m) simp_all

lemma py_getitem_dict [simp]:
  "py_getitem (PDict d) k = (case map_of d k of None \<Rightarrow> Inl KeyError | Some v \<Rightarrow> Inr v)"
  by (simp add: py_getitem_def)

lemma py_get_dict [simp]: "py_get (PDict d) k dflt = Inr (dict_get d k dflt)"
  by (simp add: py_get_def dict_get_def)

lemma split_on_notin: "c \<notin> set s \<Longrightarrow> split_on c s = [s]"
  by (induction s) auto

lemma split_on_in: "c \<in> set s \<Longrightarrow> \<exists>w v ws. split_on c s = w # v # ws"
proof (induction s)
  case Nil
  then show ?case by simp
next
  case (Cons x xs)
  show ?case
  proof (cases "x = c")
    case True
    then show ?thesis by (cases xs) (auto split: list.splits)
  next
    case False
    with Cons.prems have "c \<in> set xs" by simp
    from Cons.IH [OF this] False show ?thesis by auto
  qed
qed

lemma last_split_on: "last (split_on c s) = rev (takeWhile (\<lambda>x. x \<noteq> c) (rev s))"
proof (induction s)
  case Nil
  show ?case by simp
next
  case (Cons x xs)
  show ?case
  proof (cases "c \<in> set xs")
    case True
    from split_on_in [OF True] obtain w v ws where sp: "split_on c xs = w # v # ws" by blast
    have tw: "takeWhile (\<lambda>x. x \<noteq> c) (rev xs @ [x]) = takeWhile (\<lambda>x. x \<noteq> c) (rev xs)"
      using True by (simp add: takeWhile_append1)
    show ?thesis using Cons sp tw by (cases "x = c") auto
  next
    case False
    have sp: "split_on c xs = [xs]" by (rule split_on_notin [OF False])
    have allne: "\<forall>y\<in>set (rev xs). y \<noteq> c" using False by auto
    show ?thesis
    proof (cases "x = c")
      case True
      have "takeWhile (\<lambda>y. y \<noteq> c) (rev xs @ [x]) = rev xs @ takeWhile (\<lambda>y. y \<noteq> c) [x]"
        using allne by (intro takeWhile_append2) blast
      also have "takeWhile (\<lambda>y. y \<noteq> c) [x] = []" using True by simp
      finally have "rev (takeWhile (\<lambda>y. y \<noteq> c) (rev (x # xs))) = xs" by simp
      moreover have "last (split_on c (x # xs)) = xs" using True sp by simp
      ultimately show ?thesis by (simp only:)
    next
      case neq: False
      have "takeWhile (\<lambda>y. y \<noteq> c) (rev xs @ [x]) = rev xs @ takeWhile (\<lambda>y. y \<noteq> c) [x]"
        using allne by (intro takeWhile_append2) blast
      also have "takeWhile (\<lambda>y. y \<noteq> c) [x] = [x]" using neq by simp
      finally have "rev (takeWhile (\<lambda>y. y \<noteq> c) (rev (x # xs))) = x # xs" by simp
      moreover have "last (split_on c (x # xs)) = x # xs" using neq sp by simp
      ultimately show ?thesis by (simp only:)
    qed
  qed
qed

text \<open>
  Claim C7: a record whose \<^verbatim>\<open>author\<close> and \<^verbatim>\<open>action\<close> can be read and whose
  \<^verbatim>\<open>timestamp\<close> is absent or the empty string is formatted as exactly
  \<^verbatim>\<open>Event with missing timestamp\<close>.
\<close>

theorem format_event_missing_timestamp:
  assumes "map_of event_data ''author'' = Some a"
    and "map_of event_data ''action'' = Some b"
    and "map_of event_data ''timestamp'' = None \<or> map_of event_data ''timestamp'' = Some (PStr [])"
  shows "format_event event_data = Inr ''Event with missing timestamp''"
  using assms by (auto simp: format_event_def format_event_try_def dict_get_def)

text \<open>The witness of C7: a record with no timestamp at all.\<close>

theorem format_event_missing_timestamp_witness:
  "format_event [(''author'', PStr ''alice''), (''action'', PStr ''PUSH'')]
     = Inr ''Event with missing timestamp''"
  using format_event_missing_timestamp
    [of "[(''author'', PStr ''alice''), (''action'', PStr ''PUSH'')]" "PStr ''alice''" "PStr ''PUSH''"]
  by simp


lemma py_last_split_on:
  "py_last (split_on c s) = Inr (rev (takeWhile (\<lambda>x. x \<noteq> c) (rev s)))"
proof -
  have "split_on c s \<noteq> []" by (cases s) (auto split: list.splits)
  then have "py_last (split_on c s) = Inr (last (split_on c s))"
    by (cases "split_on c s") (simp_all add: py_last_def)
  then show ?thesis by (simp only: last_split_on)
qed

lemma dict_get_truthy_Some:
  "truthy (dict_get d k PNone) \<Longrightarrow> \<exists>v. map_of d k = Some v \<and> truthy v \<and> dict_get d k dflt = v"
  by (auto simp: dict_get_def split: option.splits)

text \<open>
  Claim C1: the formatter is meant to return a string for every mapping. On the record
  that the handler stores for a push whose head commit carries the number 5 as its
  timestamp, \<^verbatim>\<open>raw_timestamp.replace\<close> raises AttributeError, which the
  \<^verbatim>\<open>except\<close> clause does not catch: the formatter raises.
\<close>

theorem format_event_raises_on_non_string_timestamp:
  "format_event [(''request_id'', PStr ''abc123''), (''author'', PStr ''alice''),
                 (''action'', PStr ''PUSH''), (''from_branch'', PStr []),
                 (''to_branch'', PStr ''main''), (''timestamp'', PInt 5)]
     = Inl AttributeError"
  by (simp add: format_event_def format_event_try_def dict_get_def py_replace_def)

text \<open>
  Claim C3: for the category \<^verbatim>\<open>push\<close>, a payload whose head commit is absent (or
  null, or empty) produces no record and leaves the store as it is; a payload with a
  head commit and the fields the handler reads produces the record with the pusher's
  name as author, the text after the last \<^verbatim>\<open>/\<close> of the ref as \<^verbatim>\<open>to_branch\<close>, the
  empty string as \<^verbatim>\<open>from_branch\<close>, the \<^verbatim>\<open>after\<close> hash as \<^verbatim>\<open>request_id\<close>, the
  head commit's timestamp and the action PUSH; and every record the handler produces
  with action PUSH comes from a push and has the empty \<^verbatim>\<open>from_branch\<close>.
\<close>

theorem push_normalization:
  "(\<not> truthy (dict_get kvs ''head_commit'' PNone) \<longrightarrow>
      event_doc_of (Some ''push'') (PDict kvs) = Inr Ignored
      \<and> github_webhook (Some ''push'') (PDict kvs) st
          = Inr ((''ignored, no head_commit'', 200), st))
   \<and> (truthy (PDict hc) \<and> map_of kvs ''head_commit'' = Some (PDict hc)
       \<and> map_of hc ''timestamp'' = Some ts
       \<and> map_of kvs ''pusher'' = Some (PDict p) \<and> map_of p ''name'' = Some name
       \<and> map_of kvs ''ref'' = Some (PStr ref) \<and> map_of kvs ''after'' = Some after \<longrightarrow>
      event_doc_of (Some ''push'') (PDict kvs)
        = Inr (Produced (Some
            [(''request_id'', after),
             (''author'', name),
             (''action'', PStr ''PUSH''),
             (''from_branch'', PStr []),
             (''to_branch'', PStr (rev (takeWhile (\<lambda>c. c \<noteq> CHR ''/'') (rev ref)))),
             (''timestamp'', ts)])))
   \<and> (\<forall>d. event_doc_of event_type data = Inr (Produced (Some d))
            \<and> map_of d ''action'' = Some (PStr ''PUSH'') \<longrightarrow>
          event_type = Some ''push'' \<and> map_of d ''from_branch'' = Some (PStr []))"
proof (intro conjI impI allI)
  assume "\<not> truthy (dict_get kvs ''head_commit'' PNone)"
  then show "event_doc_of (Some ''push'') (PDict kvs) = Inr Ignored"
    by (simp add: event_doc_of_def)
  then show "github_webhook (Some ''push'') (PDict kvs) st
          = Inr ((''ignored, no head_commit'', 200), st)"
    by (simp add: github_webhook_def)
next
  assume "truthy (PDict hc) \<and> map_of kvs ''head_commit'' = Some (PDict hc)
       \<and> map_of hc ''timestamp'' = Some ts
       \<and> map_of kvs ''pusher'' = Some (PDict p) \<and> map_of p ''name'' = Some name
       \<and> map_of kvs ''ref'' = Some (PStr ref) \<and> map_of kvs ''after'' = Some after"
  then show "event_doc_of (Some ''push'') (PDict kvs)
        = Inr (Produced (Some
            [(''request_id'', after),
             (''author'', name),
             (''action'', PStr ''PUSH''),
             (''from_branch'', PStr []),
             (''to_branch'', PStr (rev (takeWhile (\<lambda>c. c \<noteq> CHR ''/'') (rev ref)))),
             (''timestamp'', ts)]))"
    by (simp add: event_doc_of_def push_event_doc_def dict_get_def py_split_def
        py_last_split_on)
next
  fix d
  assume a: "event_doc_of event_type data = Inr (Produced (Some d))
            \<and> map_of d ''action'' = Some (PStr ''PUSH'')"
  show "event_type = Some ''push''"
    using a
    by (auto simp: event_doc_of_def bind_eq_Inr opened_event_doc_def merged_event_doc_def
        split: if_splits)
  show "map_of d ''from_branch'' = Some (PStr [])"
    using a
    by (auto simp: event_doc_of_def bind_eq_Inr push_event_doc_def opened_event_doc_def
        merged_event_doc_def split: if_splits)
qed


text \<open>The witness of C3: a branch deletion, and the push of the specification's scenario.\<close>

theorem push_normalization_witness:
  "github_webhook (Some ''push'') (PDict [(''ref'', PStr ''refs/heads/feature''),
        (''after'', PStr ''abc123''), (''head_commit'', PNone)]) empty_store
     = Inr ((''ignored, no head_commit'', 200), empty_store)
   \<and> event_doc_of (Some ''push'')
        (PDict [(''ref'', PStr ''refs/heads/main''), (''after'', PStr ''abc123''),
                (''pusher'', PDict [(''name'', PStr ''alice'')]),
                (''head_commit'', PDict [(''timestamp'', PStr ''2024-03-01T10:15:00Z'')])])
     = Inr (Produced (Some
            [(''request_id'', PStr ''abc123''),
             (''author'', PStr ''alice''),
             (''action'', PStr ''PUSH''),
             (''from_branch'', PStr []),
             (''to_branch'', PStr ''main''),
             (''timestamp'', PStr ''2024-03-01T10:15:00Z'')]))"
proof -
  let ?a = "[(''ref'', PStr ''refs/heads/feature''),
        (''after'', PStr ''abc123''), (''head_commit'', PNone)]"
  let ?b = "[(''ref'', PStr ''refs/heads/main''), (''after'', PStr ''abc123''),
                (''pusher'', PDict [(''name'', PStr ''alice'')]),
                (''head_commit'', PDict [(''timestamp'', PStr ''2024-03-01T10:15:00Z'')])]"
  have 1: "\<not> truthy (dict_get ?a ''head_commit'' PNone)" by (simp add: dict_get_def)
  have 2: "truthy (PDict [(''timestamp'', PStr ''2024-03-01T10:15:00Z'')])
       \<and> map_of ?b ''head_commit'' = Some (PDict [(''timestamp'', PStr ''2024-03-01T10:15:00Z'')])
       \<and> map_of [(''timestamp'', PStr ''2024-03-01T10:15:00Z'')] ''timestamp''
            = Some (PStr ''2024-03-01T10:15:00Z'')
       \<and> map_of ?b ''pusher'' = Some (PDict [(''name'', PStr ''alice'')])
       \<and> map_of [(''name'', PStr ''alice'')] ''name'' = Some (PStr ''alice'')
       \<and> map_of ?b ''ref'' = Some (PStr ''refs/heads/main'')
       \<and> map_of ?b ''after'' = Some (PStr ''abc123'')" by simp
  from push_normalization [of ?a empty_store, THEN conjunct1, rule_format, OF 1]
  have A: "github_webhook (Some ''push'') (PDict ?a) empty_store
     = Inr ((''ignored, no head_commit'', 200), empty_store)" by (rule conjunct2)
  from push_normalization [THEN conjunct2, THEN conjunct1, rule_format, OF 2]
  have B: "event_doc_of (Some ''push'') (PDict ?b) = Inr (Produced (Some
            [(''request_id'', PStr ''abc123''),
             (''author'', PStr ''alice''),
             (''action'', PStr ''PUSH''),
             (''from_branch'', PStr []),
             (''to_branch'', PStr ''main''),
             (''timestamp'', PStr ''2024-03-01T10:15:00Z'')]))" by simp
  from A B show ?thesis by (rule conjI)
qed


text \<open>
  Claim C4: a \<^verbatim>\<open>pull_request\<close> event with inner action \<^verbatim>\<open>closed\<close> whose pull
  request is marked merged produces the record with action MERGE, the string form of
  the numeric id as \<^verbatim>\<open>request_id\<close>, the head and base refs as branches, the merge
  timestamp, and as author the login of \<^verbatim>\<open>merged_by\<close> or the literal
  \<^verbatim>\<open>Unknown\<close> when there is none; when the pull request is not marked merged,
  nothing is produced and the store is left as it is.
\<close>

theorem merge_normalization:
  "(dict_get kvs ''action'' PNone = PStr ''closed''
     \<and> dict_get kvs ''pull_request'' (PDict []) = PDict pr
     \<and> truthy (dict_get pr ''merged'' PNone)
     \<and> map_of pr ''id'' = Some (PInt n)
     \<and> dict_get pr ''merged_by'' (PDict []) = PDict mb
     \<and> map_of pr ''head'' = Some (PDict h) \<and> map_of h ''ref'' = Some head_ref
     \<and> map_of pr ''base'' = Some (PDict b) \<and> map_of b ''ref'' = Some base_ref
     \<and> map_of pr ''merged_at'' = Some merged_at \<longrightarrow>
      event_doc_of (Some ''pull_request'') (PDict kvs)
        = Inr (Produced (Some
            [(''request_id'', PStr (dec_int n)),
             (''author'', (case map_of mb ''login'' of None \<Rightarrow> PStr ''Unknown'' | Some l \<Rightarrow> l)),
             (''action'', PStr ''MERGE''),
             (''from_branch'', head_ref),
             (''to_branch'', base_ref),
             (''timestamp'', merged_at)])))
   \<and> (dict_get kvs ''action'' PNone = PStr ''closed''
     \<and> dict_get kvs ''pull_request'' (PDict []) = PDict pr
     \<and> \<not> truthy (dict_get pr ''merged'' PNone) \<longrightarrow>
      event_doc_of (Some ''pull_request'') (PDict kvs) = Inr (Produced None)
      \<and> github_webhook (Some ''pull_request'') (PDict kvs) st = Inr ((''success'', 200), st))"
proof (intro conjI impI)
  assume "dict_get kvs ''action'' PNone = PStr ''closed''
     \<and> dict_get kvs ''pull_request'' (PDict []) = PDict pr
     \<and> truthy (dict_get pr ''merged'' PNone)
     \<and> map_of pr ''id'' = Some (PInt n)
     \<and> dict_get pr ''merged_by'' (PDict []) = PDict mb
     \<and> map_of pr ''head'' = Some (PDict h) \<and> map_of h ''ref'' = Some head_ref
     \<and> map_of pr ''base'' = Some (PDict b) \<and> map_of b ''ref'' = Some base_ref
     \<and> map_of pr ''merged_at'' = Some merged_at"
  then show "event_doc_of (Some ''pull_request'') (PDict kvs)
        = Inr (Produced (Some
            [(''request_id'', PStr (dec_int n)),
             (''author'', (case map_of mb ''login'' of None \<Rightarrow> PStr ''Unknown'' | Some l \<Rightarrow> l)),
             (''action'', PStr ''MERGE''),
             (''from_branch'', head_ref),
             (''to_branch'', base_ref),
             (''timestamp'', merged_at)]))"
    by (simp add: event_doc_of_def merged_event_doc_def py_str_def)
      (simp add: dict_get_def)
next
  assume a: "dict_get kvs ''action'' PNone = PStr ''closed''
     \<and> dict_get kvs ''pull_request'' (PDict []) = PDict pr
     \<and> \<not> truthy (dict_get pr ''merged'' PNone)"
  then show e: "event_doc_of (Some ''pull_request'') (PDict kvs) = Inr (Produced None)"
    by (simp add: event_doc_of_def)
  show "github_webhook (Some ''pull_request'') (PDict kvs) st = Inr ((''success'', 200), st)"
    by (simp add: github_webhook_def e)
qed


text \<open>
  The witness of C4: pull request 42 merged by carol, and the same pull request closed
  without a merge.
\<close>

theorem merge_normalization_witness:
  "event_doc_of (Some ''pull_request'')
      (PDict [(''action'', PStr ''closed''),
              (''pull_request'', PDict [(''id'', PInt 42), (''merged'', PBool True),
                 (''merged_by'', PDict [(''login'', PStr ''carol'')]),
                 (''head'', PDict [(''ref'', PStr ''feature-x'')]),
                 (''base'', PDict [(''ref'', PStr ''main'')]),
                 (''merged_at'', PStr ''2024-03-02T09:00:00Z'')])])
     = Inr (Produced (Some
            [(''request_id'', PStr ''42''),
             (''author'', PStr ''carol''),
             (''action'', PStr ''MERGE''),
             (''from_branch'', PStr ''feature-x''),
             (''to_branch'', PStr ''main''),
             (''timestamp'', PStr ''2024-03-02T09:00:00Z'')]))
   \<and> github_webhook (Some ''pull_request'')
      (PDict [(''action'', PStr ''closed''),
              (''pull_request'', PDict [(''id'', PInt 42), (''merged'', PBool False)])]) empty_store
     = Inr ((''success'', 200), empty_store)"
proof -
  let ?pr = "[(''id'', PInt 42), (''merged'', PBool True),
                 (''merged_by'', PDict [(''login'', PStr ''carol'')]),
                 (''head'', PDict [(''ref'', PStr ''feature-x'')]),
                 (''base'', PDict [(''ref'', PStr ''main'')]),
                 (''merged_at'', PStr ''2024-03-02T09:00:00Z'')]"
  let ?kvs = "[(''action'', PStr ''closed''), (''pull_request'', PDict ?pr)]"
  let ?pr2 = "[(''id'', PInt 42), (''merged'', PBool False)]"
  let ?kvs2 = "[(''action'', PStr ''closed''), (''pull_request'', PDict ?pr2)]"
  have 1: "dict_get ?kvs ''action'' PNone = PStr ''closed''
     \<and> dict_get ?kvs ''pull_request'' (PDict []) = PDict ?pr
     \<and> truthy (dict_get ?pr ''merged'' PNone)
     \<and> map_of ?pr ''id'' = Some (PInt 42)
     \<and> dict_get ?pr ''merged_by'' (PDict []) = PDict [(''login'', PStr ''carol'')]
     \<and> map_of ?pr ''head'' = Some (PDict [(''ref'', PStr ''feature-x'')])
     \<and> map_of [(''ref'', PStr ''feature-x'')] ''ref'' = Some (PStr ''feature-x'')
     \<and> map_of ?pr ''base'' = Some (PDict [(''ref'', PStr ''main'')])
     \<and> map_of [(''ref'', PStr ''main'')] ''ref'' = Some (PStr ''main'')
     \<and> map_of ?pr ''merged_at'' = Some (PStr ''2024-03-02T09:00:00Z'')"
    by (simp add: dict_get_def)
  have 2: "dict_get ?kvs2 ''action'' PNone = PStr ''closed''
     \<and> dict_get ?kvs2 ''pull_request'' (PDict []) = PDict ?pr2
     \<and> \<not> truthy (dict_get ?pr2 ''merged'' PNone)"
    by (simp add: dict_get_def)
  have d: "dec_int 42 = ''42''"
    by (simp add: dec_int_def dec_nat.simps digit_char_def)
  from merge_normalization [THEN conjunct1, rule_format, OF 1]
  have A: "event_doc_of (Some ''pull_request'') (PDict ?kvs)
     = Inr (Produced (Some
            [(''request_id'', PStr ''42''),
             (''author'', PStr ''carol''),
             (''action'', PStr ''MERGE''),
             (''from_branch'', PStr ''feature-x''),
             (''to_branch'', PStr ''main''),
             (''timestamp'', PStr ''2024-03-02T09:00:00Z'')]))"
    by (simp add: d)
  from merge_normalization [of ?kvs2 ?pr2 _ _ _ _ _ _ _ empty_store, THEN conjunct2, rule_format, OF 2]
  have B: "github_webhook (Some ''pull_request'') (PDict ?kvs2) empty_store
      = Inr ((''success'', 200), empty_store)"
    by (rule conjunct2)
  from A B show ?thesis by (rule conjI)
qed

text \<open>
  Claim C10: for a closed and merged pull request whose other fields are there, the
  author is the default \<^verbatim>\<open>Unknown\<close> when the key \<^verbatim>\<open>merged_by\<close> is absent or maps to a
  mapping without \<^verbatim>\<open>login\<close>; it is the login when there is one; and when
  \<^verbatim>\<open>merged_by\<close> is present with a value that is not a mapping (null, for one), the
  handler raises AttributeError and produces no record.
\<close>

theorem merged_by_default:
  "(dict_get kvs ''action'' PNone = PStr ''closed''
     \<and> dict_get kvs ''pull_request'' (PDict []) = PDict pr
     \<and> truthy (dict_get pr ''merged'' PNone)
     \<and> map_of pr ''id'' = Some pr_id
     \<and> map_of pr ''head'' = Some (PDict h) \<and> map_of h ''ref'' = Some head_ref
     \<and> map_of pr ''base'' = Some (PDict b) \<and> map_of b ''ref'' = Some base_ref
     \<and> map_of pr ''merged_at'' = Some merged_at) \<longrightarrow>
   (map_of pr ''merged_by'' = None
      \<or> (\<exists>m. map_of pr ''merged_by'' = Some (PDict m) \<and> map_of m ''login'' = None) \<longrightarrow>
      event_doc_of (Some ''pull_request'') (PDict kvs)
        = Inr (Produced (Some
            [(''request_id'', PStr (py_str pr_id)), (''author'', PStr ''Unknown''),
             (''action'', PStr ''MERGE''), (''from_branch'', head_ref),
             (''to_branch'', base_ref), (''timestamp'', merged_at)])))
   \<and> (\<forall>m l. map_of pr ''merged_by'' = Some (PDict m) \<and> map_of m ''login'' = Some l \<longrightarrow>
      event_doc_of (Some ''pull_request'') (PDict kvs)
        = Inr (Produced (Some
            [(''request_id'', PStr (py_str pr_id)), (''author'', l),
             (''action'', PStr ''MERGE''), (''from_branch'', head_ref),
             (''to_branch'', base_ref), (''timestamp'', merged_at)])))
   \<and> (\<forall>v. map_of pr ''merged_by'' = Some v \<and> (\<forall>m. v \<noteq> PDict m) \<longrightarrow>
      event_doc_of (Some ''pull_request'') (PDict kvs) = Inl AttributeError
      \<and> github_webhook (Some ''pull_request'') (PDict kvs) st = Inl AttributeError)"
proof (intro impI)
  assume a: "dict_get kvs ''action'' PNone = PStr ''closed''
     \<and> dict_get kvs ''pull_request'' (PDict []) = PDict pr
     \<and> truthy (dict_get pr ''merged'' PNone)
     \<and> map_of pr ''id'' = Some pr_id
     \<and> map_of pr ''head'' = Some (PDict h) \<and> map_of h ''ref'' = Some head_ref
     \<and> map_of pr ''base'' = Some (PDict b) \<and> map_of b ''ref'' = Some base_ref
     \<and> map_of pr ''merged_at'' = Some merged_at"
  then have e: "event_doc_of (Some ''pull_request'') (PDict kvs)
      = bind (merged_event_doc (PDict pr)) (\<lambda>d. Inr (Produced (Some d)))"
    by (simp add: event_doc_of_def)
  have m: "merged_event_doc (PDict pr)
      = bind (py_get (dict_get pr ''merged_by'' (PDict [])) ''login'' (PStr ''Unknown''))
          (\<lambda>login. Inr [(''request_id'', PStr (py_str pr_id)), (''author'', login),
             (''action'', PStr ''MERGE''), (''from_branch'', head_ref),
             (''to_branch'', base_ref), (''timestamp'', merged_at)])"
    using a by (simp add: merged_event_doc_def)
  show "(map_of pr ''merged_by'' = None
      \<or> (\<exists>m. map_of pr ''merged_by'' = Some (PDict m) \<and> map_of m ''login'' = None) \<longrightarrow>
      event_doc_of (Some ''pull_request'') (PDict kvs)
        = Inr (Produced (Some
            [(''request_id'', PStr (py_str pr_id)), (''author'', PStr ''Unknown''),
             (''action'', PStr ''MERGE''), (''from_branch'', head_ref),
             (''to_branch'', base_ref), (''timestamp'', merged_at)])))
   \<and> (\<forall>m l. map_of pr ''merged_by'' = Some (PDict m) \<and> map_of m ''login'' = Some l \<longrightarrow>
      event_doc_of (Some ''pull_request'') (PDict kvs)
        = Inr (Produced (Some
            [(''request_id'', PStr (py_str pr_id)), (''author'', l),
             (''action'', PStr ''MERGE''), (''from_branch'', head_ref),
             (''to_branch'', base_ref), (''timestamp'', merged_at)])))
   \<and> (\<forall>v. map_of pr ''merged_by'' = Some v \<and> (\<forall>m. v \<noteq> PDict m) \<longrightarrow>
      event_doc_of (Some ''pull_request'') (PDict kvs) = Inl AttributeError
      \<and> github_webhook (Some ''pull_request'') (PDict kvs) st = Inl AttributeError)"
  proof (intro conjI impI allI)
    assume "map_of pr ''merged_by'' = None
      \<or> (\<exists>m. map_of pr ''merged_by'' = Some (PDict m) \<and> map_of m ''login'' = None)"
    then show "event_doc_of (Some ''pull_request'') (PDict kvs)
        = Inr (Produced (Some
            [(''request_id'', PStr (py_str pr_id)), (''author'', PStr ''Unknown''),
             (''action'', PStr ''MERGE''), (''from_branch'', head_ref),
             (''to_branch'', base_ref), (''timestamp'', merged_at)]))"
      by (auto simp: e m dict_get_def)
  next
    fix m l
    assume "map_of pr ''merged_by'' = Some (PDict m) \<and> map_of m ''login'' = Some l"
    then show "event_doc_of (Some ''pull_request'') (PDict kvs)
        = Inr (Produced (Some
            [(''request_id'', PStr (py_str pr_id)), (''author'', l),
             (''action'', PStr ''MERGE''), (''from_branch'', head_ref),
             (''to_branch'', base_ref), (''timestamp'', merged_at)]))"
      by (auto simp: e m dict_get_def)
  next
    fix v
    assume v: "map_of pr ''merged_by'' = Some v \<and> (\<forall>m. v \<noteq> PDict m)"
    then have "py_get v ''login'' (PStr ''Unknown'') = Inl AttributeError"
      by (cases v) (simp_all add: py_get_def)
    with v show r: "event_doc_of (Some ''pull_request'') (PDict kvs) = Inl AttributeError"
      by (simp add: e m dict_get_def)
    show "github_webhook (Some ''pull_request'') (PDict kvs) st = Inl AttributeError"
      by (simp add: github_webhook_def r)
  qed
qed


text \<open>
  The witness of C10: no \<^verbatim>\<open>merged_by\<close> key, and \<^verbatim>\<open>merged_by\<close> null.
\<close>

theorem merged_by_default_witness:
  "event_doc_of (Some ''pull_request'')
      (PDict [(''action'', PStr ''closed''),
              (''pull_request'', PDict [(''id'', PInt 42), (''merged'', PBool True),
                 (''head'', PDict [(''ref'', PStr ''feature-x'')]),
                 (''base'', PDict [(''ref'', PStr ''main'')]),
                 (''merged_at'', PStr ''2024-03-02T09:00:00Z'')])])
     = Inr (Produced (Some
            [(''request_id'', PStr ''42''), (''author'', PStr ''Unknown''),
             (''action'', PStr ''MERGE''), (''from_branch'', PStr ''feature-x''),
             (''to_branch'', PStr ''main''), (''timestamp'', PStr ''2024-03-02T09:00:00Z'')]))
   \<and> github_webhook (Some ''pull_request'')
      (PDict [(''action'', PStr ''closed''),
              (''pull_request'', PDict [(''id'', PInt 42), (''merged'', PBool True),
                 (''merged_by'', PNone),
                 (''head'', PDict [(''ref'', PStr ''feature-x'')]),
                 (''base'', PDict [(''ref'', PStr ''main'')]),
                 (''merged_at'', PStr ''2024-03-02T09:00:00Z'')])]) empty_store
     = Inl AttributeError"
proof -
  let ?pr = "[(''id'', PInt 42), (''merged'', PBool True),
                 (''head'', PDict [(''ref'', PStr ''feature-x'')]),
                 (''base'', PDict [(''ref'', PStr ''main'')]),
                 (''merged_at'', PStr ''2024-03-02T09:00:00Z'')]"
  let ?kvs = "[(''action'', PStr ''closed''), (''pull_request'', PDict ?pr)]"
  let ?pr2 = "[(''id'', PInt 42), (''merged'', PBool True), (''merged_by'', PNone),
                 (''head'', PDict [(''ref'', PStr ''feature-x'')]),
                 (''base'', PDict [(''ref'', PStr ''main'')]),
                 (''merged_at'', PStr ''2024-03-02T09:00:00Z'')]"
  let ?kvs2 = "[(''action'', PStr ''closed''), (''pull_request'', PDict ?pr2)]"
  have 1: "dict_get ?kvs ''action'' PNone = PStr ''closed''
     \<and> dict_get ?kvs ''pull_request'' (PDict []) = PDict ?pr
     \<and> truthy (dict_get ?pr ''merged'' PNone)
     \<and> map_of ?pr ''id'' = Some (PInt 42)
     \<and> map_of ?pr ''head'' = Some (PDict [(''ref'', PStr ''feature-x'')])
     \<and> map_of [(''ref'', PStr ''feature-x'')] ''ref'' = Some (PStr ''feature-x'')
     \<and> map_of ?pr ''base'' = Some (PDict [(''ref'', PStr ''main'')])
     \<and> map_of [(''ref'', PStr ''main'')] ''ref'' = Some (PStr ''main'')
     \<and> map_of ?pr ''merged_at'' = Some (PStr ''2024-03-02T09:00:00Z'')"
    by (simp add: dict_get_def)
  have 2: "dict_get ?kvs2 ''action'' PNone = PStr ''closed''
     \<and> dict_get ?kvs2 ''pull_request'' (PDict []) = PDict ?pr2
     \<and> truthy (dict_get ?pr2 ''merged'' PNone)
     \<and> map_of ?pr2 ''id'' = Some (PInt 42)
     \<and> map_of ?pr2 ''head'' = Some (PDict [(''ref'', PStr ''feature-x'')])
     \<and> map_of [(''ref'', PStr ''feature-x'')] ''ref'' = Some (PStr ''feature-x'')
     \<and> map_of ?pr2 ''base'' = Some (PDict [(''ref'', PStr ''main'')])
     \<and> map_of [(''ref'', PStr ''main'')] ''ref'' = Some (PStr ''main'')
     \<and> map_of ?pr2 ''merged_at'' = Some (PStr ''2024-03-02T09:00:00Z'')"
    by (simp add: dict_get_def)
  have d: "py_str (PInt 42) = ''42''"
    by (simp add: py_str_def dec_int_def dec_nat.simps digit_char_def)
  have 3: "map_of ?pr ''merged_by'' = None
      \<or> (\<exists>m. map_of ?pr ''merged_by'' = Some (PDict m) \<and> map_of m ''login'' = None)"
    by simp
  have 4: "map_of ?pr2 ''merged_by'' = Some PNone \<and> (\<forall>m. PNone \<noteq> PDict m)" by simp
  from merged_by_default [rule_format, OF 1, THEN conjunct1, rule_format, OF 3]
  have A: "event_doc_of (Some ''pull_request'') (PDict ?kvs)
     = Inr (Produced (Some
            [(''request_id'', PStr ''42''), (''author'', PStr ''Unknown''),
             (''action'', PStr ''MERGE''), (''from_branch'', PStr ''feature-x''),
             (''to_branch'', PStr ''main''), (''timestamp'', PStr ''2024-03-02T09:00:00Z'')]))"
    by (simp add: d)
  from merged_by_default [where st = empty_store, rule_format, OF 2, THEN conjunct2, THEN conjunct2,
      rule_format, OF 4]
  have B: "github_webhook (Some ''pull_request'') (PDict ?kvs2) empty_store = Inl AttributeError"
    by (rule conjunct2)
  from A B show ?thesis by (rule conjI)
qed

lemma py_getitem_Inr:
  "py_getitem v k = Inr x \<longleftrightarrow> (\<exists>d. v = PDict d \<and> map_of d k = Some x)"
  by (cases v) (auto simp: py_getitem_def split: option.splits)

lemma push_event_doc_Inr:
  "push_event_doc v = Inr d \<Longrightarrow> \<not> missing_required v push_required"
  by (auto simp: push_event_doc_def bind_eq_Inr py_getitem_Inr missing_required_def
      push_required_def)

lemma opened_event_doc_Inr:
  "opened_event_doc v = Inr d \<Longrightarrow> \<not> missing_required v opened_required"
  by (auto simp: opened_event_doc_def bind_eq_Inr py_getitem_Inr missing_required_def
      opened_required_def)

lemma merged_event_doc_Inr:
  "merged_event_doc v = Inr d \<Longrightarrow> \<not> missing_required v merged_required"
  by (auto simp: merged_event_doc_def bind_eq_Inr py_getitem_Inr missing_required_def
      merged_required_def)

lemma github_webhook_Inl:
  "event_doc_of event_type data = Inl e \<Longrightarrow> github_webhook event_type data st = Inl e"
  by (simp add: github_webhook_def)

text \<open>
  Claim C8: when the category and action match a rule and a sub-field that the rule
  reads with a subscript is missing, the handler raises: the request fails with the
  exception, and since the exception is raised before the insertion, the store is
  left as it was (an exceptional result carries no new store).
\<close>

theorem missing_required_field_raises:
  "(truthy (dict_get kvs ''head_commit'' PNone)
      \<and> missing_required (PDict kvs) push_required \<longrightarrow>
      (\<exists>e. github_webhook (Some ''push'') (PDict kvs) st = Inl e))
   \<and> (dict_get kvs ''action'' PNone = PStr ''opened''
      \<and> missing_required (dict_get kvs ''pull_request'' (PDict [])) opened_required \<longrightarrow>
      (\<exists>e. github_webhook (Some ''pull_request'') (PDict kvs) st = Inl e))
   \<and> (dict_get kvs ''action'' PNone = PStr ''closed''
      \<and> dict_get kvs ''pull_request'' (PDict []) = PDict pr
      \<and> truthy (dict_get pr ''merged'' PNone)
      \<and> missing_required (PDict pr) merged_required \<longrightarrow>
      (\<exists>e. github_webhook (Some ''pull_request'') (PDict kvs) st = Inl e))"
proof (intro conjI impI)
  assume a: "truthy (dict_get kvs ''head_commit'' PNone)
      \<and> missing_required (PDict kvs) push_required"
  then obtain e where "push_event_doc (PDict kvs) = Inl e"
    using push_event_doc_Inr [of "PDict kvs"] by (cases "push_event_doc (PDict kvs)") auto
  with a have "event_doc_of (Some ''push'') (PDict kvs) = Inl e"
    by (simp add: event_doc_of_def)
  then show "\<exists>e. github_webhook (Some ''push'') (PDict kvs) st = Inl e"
    by (blast intro: github_webhook_Inl)
next
  let ?pr = "dict_get kvs ''pull_request'' (PDict [])"
  assume a: "dict_get kvs ''action'' PNone = PStr ''opened''
      \<and> missing_required ?pr opened_required"
  then obtain e where "opened_event_doc ?pr = Inl e"
    using opened_event_doc_Inr [of ?pr] by (cases "opened_event_doc ?pr") auto
  with a have "event_doc_of (Some ''pull_request'') (PDict kvs) = Inl e"
    by (simp add: event_doc_of_def)
  then show "\<exists>e. github_webhook (Some ''pull_request'') (PDict kvs) st = Inl e"
    by (blast intro: github_webhook_Inl)
next
  assume a: "dict_get kvs ''action'' PNone = PStr ''closed''
      \<and> dict_get kvs ''pull_request'' (PDict []) = PDict pr
      \<and> truthy (dict_get pr ''merged'' PNone)
      \<and> missing_required (PDict pr) merged_required"
  then obtain e where "merged_event_doc (PDict pr) = Inl e"
    using merged_event_doc_Inr [of "PDict pr"] by (cases "merged_event_doc (PDict pr)") auto
  with a have "event_doc_of (Some ''pull_request'') (PDict kvs) = Inl e"
    by (simp add: event_doc_of_def)
  then show "\<exists>e. github_webhook (Some ''pull_request'') (PDict kvs) st = Inl e"
    by (blast intro: github_webhook_Inl)
qed

text \<open>
  The witness of C8: a push with a head commit and no \<^verbatim>\<open>pusher\<close>.
\<close>

theorem missing_required_field_raises_witness:
  "\<exists>e. github_webhook (Some ''push'')
        (PDict [(''ref'', PStr ''refs/heads/main''), (''after'', PStr ''abc123''),
                (''head_commit'', PDict [(''timestamp'', PStr ''2024-03-01T10:15:00Z'')])])
        empty_store = Inl e"
proof -
  let ?kvs = "[(''ref'', PStr ''refs/heads/main''), (''after'', PStr ''abc123''),
                (''head_commit'', PDict [(''timestamp'', PStr ''2024-03-01T10:15:00Z'')])]"
  have 1: "truthy (dict_get ?kvs ''head_commit'' PNone)
      \<and> missing_required (PDict ?kvs) push_required"
    by (simp add: dict_get_def missing_required_def push_required_def)
  from missing_required_field_raises [THEN conjunct1, rule_format, OF 1]
  show ?thesis .
qed

subsection \<open>The deduplication gate\<close>

lemma produced_doc_fields:
  assumes "event_doc_of event_type data = Inr (Produced (Some d))"
  shows "\<exists>rid act. map_of d ''request_id'' = Some rid \<and> map_of d ''action'' = Some (PStr act)
           \<and> d \<noteq> []"
  using assms
  by (auto simp: event_doc_of_def bind_eq_Inr push_event_doc_def opened_event_doc_def
      merged_event_doc_def split: if_splits)

lemma not_operator_PStr [simp]: "\<not> is_operator_doc (PStr s)"
  by (simp add: is_operator_doc_def)

lemma field_filter_plain: "\<not> is_operator_doc q \<Longrightarrow> field_filter st q = Inr (eq_match q)"
  by (simp add: field_filter_def)

lemma eq_match_plain: "\<not> is_array (field d k) \<Longrightarrow> eq_match q (map_of d k) = (field d k = q)"
  by (cases "map_of d k")
    (auto simp: eq_match_def field_def dict_get_def is_array_def split: pyval.splits)

lemma find_one_plain:
  assumes "\<not> is_operator_doc rid" "\<not> is_operator_doc act" "plain_store st"
  shows "find_one rid act st = Inr (List.find (\<lambda>d. doc_key d = (rid, act)) (documents st))"
proof -
  have "List.find (\<lambda>d. eq_match rid (map_of d ''request_id'') \<and> eq_match act (map_of d ''action''))
          (documents st)
        = List.find (\<lambda>d. doc_key d = (rid, act)) (documents st)"
  proof (rule find_cong [OF refl])
    fix d assume "d \<in> set (documents st)"
    with assms(3) have "plain_key d" by (simp add: plain_store_def list_all_iff)
    then show "(eq_match rid (map_of d ''request_id'') \<and> eq_match act (map_of d ''action''))
        = (doc_key d = (rid, act))"
      by (simp add: plain_key_def eq_match_plain doc_key_def)
  qed
  with assms(1,2) show ?thesis by (simp add: find_one_def field_filter_plain)
qed

lemma find_None_key:
  "(List.find (\<lambda>d. doc_key d = k) ds = None) = (k \<notin> set (map doc_key ds))"
  by (auto simp: find_None_iff)

lemma github_webhook_plain:
  assumes "event_doc_of event_type data = Inr (Produced (Some d))"
    and "\<not> is_operator_doc (field d ''request_id'')" and "plain_store st"
  shows "github_webhook event_type data st
     = Inr ((''success'', 200),
            if doc_key d \<in> set (map doc_key (documents st)) then st else insert_one d st)"
proof -
  from produced_doc_fields [OF assms(1)] obtain rid act where
    f: "map_of d ''request_id'' = Some rid" "map_of d ''action'' = Some (PStr act)" "d \<noteq> []"
    by blast
  then have k: "doc_key d = (rid, PStr act)" and r: "field d ''request_id'' = rid"
    by (simp_all add: doc_key_def field_def dict_get_def)
  from assms(2) r have "\<not> is_operator_doc rid" by simp
  from find_one_plain [OF this _ assms(3), of "PStr act"]
  have "find_one rid (PStr act) st
      = Inr (List.find (\<lambda>d. doc_key d = (rid, PStr act)) (documents st))" by simp
  then show ?thesis
    using f by (simp add: github_webhook_def assms(1) store_event_def k find_None_key
        del: set_map)
qed

lemma count_key_distinct:
  "distinct (map f xs) \<Longrightarrow> y \<in> set xs \<Longrightarrow> length (filter (\<lambda>x. f x = f y) xs) = 1"
proof (induction xs)
  case Nil
  then show ?case by simp
next
  case (Cons a xs)
  show ?case
  proof (cases "f a = f y")
    case True
    have "filter (\<lambda>x. f x = f y) xs = []"
      using Cons.prems(1) True by (auto simp: filter_empty_conv image_iff)
    with True show ?thesis by simp
  next
    case False
    with Cons show ?thesis by auto
  qed
qed

text \<open>
  For keys that the store matches by equality alone the gate does what it is meant to
  do: two events whose records have the same pair, handled one after the other on a
  store that satisfies the invariant, leave exactly one record with that pair, the
  second changes nothing, and the invariant still holds.
\<close>

lemma dedup_gate_plain_keys:
  assumes "dedup_inv st" "plain_store st"
    and "event_doc_of et1 data1 = Inr (Produced (Some d1))" "plain_key d1"
    and "event_doc_of et2 data2 = Inr (Produced (Some d2))" "plain_key d2"
    and "doc_key d1 = doc_key d2"
  shows "\<exists>st1. github_webhook et1 data1 st = Inr ((''success'', 200), st1)
            \<and> github_webhook et2 data2 st1 = Inr ((''success'', 200), st1)
            \<and> dedup_inv st1 \<and> plain_store st1
            \<and> length (filter (\<lambda>x. doc_key x = doc_key d1) (documents st1)) = 1"
proof -
  define st1 where
    "st1 = (if doc_key d1 \<in> set (map doc_key (documents st)) then st else insert_one d1 st)"
  have o1: "\<not> is_operator_doc (field d1 ''request_id'')"
    and o2: "\<not> is_operator_doc (field d2 ''request_id'')"
    using assms(4,6) by (simp_all add: plain_key_def)
  have g1: "github_webhook et1 data1 st = Inr ((''success'', 200), st1)"
    using github_webhook_plain [OF assms(3) o1 assms(2)] by (simp add: st1_def)
  have p1: "plain_store st1"
    using assms(2,4) by (simp add: st1_def plain_store_def insert_one_def)
  have mem: "doc_key d2 \<in> set (map doc_key (documents st1))"
    using assms(7) by (auto simp: st1_def insert_one_def)
  have g2: "github_webhook et2 data2 st1 = Inr ((''success'', 200), st1)"
    using github_webhook_plain [OF assms(5) o2 p1] mem by simp
  have inv1: "distinct (map doc_key (documents st1))"
    using assms(1) by (auto simp: st1_def dedup_inv_def insert_one_def)
  from mem assms(7) obtain y where y: "y \<in> set (documents st1)" "doc_key y = doc_key d1"
    by auto
  from count_key_distinct [OF inv1 y(1)] y(2)
  have "length (filter (\<lambda>x. doc_key x = doc_key d1) (documents st1)) = 1" by simp
  with g1 g2 inv1 p1 show ?thesis by (auto simp: dedup_inv_def)
qed

text \<open>
  Claim C2: the gate is meant to keep exactly one record per pair of \<^verbatim>\<open>request_id\<close>
  and \<^verbatim>\<open>action\<close>. The store holds the record of the push \<^verbatim>\<open>abc123\<close>. A push whose
  \<^verbatim>\<open>after\<close> is the document \<^verbatim>\<open>{"$ne": null}\<close> produces a record with this document
  as \<^verbatim>\<open>request_id\<close>; \<^verbatim>\<open>find_one\<close> receives it as a filter, the server reads it as
  "not null" and returns the record \<^verbatim>\<open>abc123\<close>, and the handler discards the new
  record as a duplicate. The request succeeds, the store is unchanged, and it holds no
  record with the pair of the event, however often the event is delivered.
\<close>

theorem dedup_gate_discards_distinct_event:
  "event_doc_of (Some ''push'')
      (PDict [(''ref'', PStr ''refs/heads/main''), (''after'', PDict [(''$ne'', PNone)]),
              (''pusher'', PDict [(''name'', PStr ''mallory'')]),
              (''head_commit'', PDict [(''timestamp'', PStr ''2024-03-05T09:00:00Z'')])])
     = Inr (Produced (Some
         [(''request_id'', PDict [(''$ne'', PNone)]), (''author'', PStr ''mallory''),
          (''action'', PStr ''PUSH''), (''from_branch'', PStr []),
          (''to_branch'', PStr ''main''), (''timestamp'', PStr ''2024-03-05T09:00:00Z'')]))
   \<and> github_webhook (Some ''push'')
      (PDict [(''ref'', PStr ''refs/heads/main''), (''after'', PDict [(''$ne'', PNone)]),
              (''pusher'', PDict [(''name'', PStr ''mallory'')]),
              (''head_commit'', PDict [(''timestamp'', PStr ''2024-03-05T09:00:00Z'')])])
      \<lparr>documents =
         [[(''request_id'', PStr ''abc123''), (''author'', PStr ''alice''),
           (''action'', PStr ''PUSH''), (''from_branch'', PStr []),
           (''to_branch'', PStr ''main''), (''timestamp'', PStr ''2024-03-01T10:15:00Z'')]],
       operators = eq_ne_operators\<rparr>
     = Inr ((''success'', 200),
        \<lparr>documents =
           [[(''request_id'', PStr ''abc123''), (''author'', PStr ''alice''),
             (''action'', PStr ''PUSH''), (''from_branch'', PStr []),
             (''to_branch'', PStr ''main''), (''timestamp'', PStr ''2024-03-01T10:15:00Z'')]],
         operators = eq_ne_operators\<rparr>)
   \<and> filter (\<lambda>x. doc_key x = (PDict [(''$ne'', PNone)], PStr ''PUSH''))
        [[(''request_id'', PStr ''abc123''), (''author'', PStr ''alice''),
          (''action'', PStr ''PUSH''), (''from_branch'', PStr []),
          (''to_branch'', PStr ''main''), (''timestamp'', PStr ''2024-03-01T10:15:00Z'')]]
     = []"
proof -
  let ?data = "PDict [(''ref'', PStr ''refs/heads/main''), (''after'', PDict [(''$ne'', PNone)]),
              (''pusher'', PDict [(''name'', PStr ''mallory'')]),
              (''head_commit'', PDict [(''timestamp'', PStr ''2024-03-05T09:00:00Z'')])]"
  let ?d = "[(''request_id'', PDict [(''$ne'', PNone)]), (''author'', PStr ''mallory''),
          (''action'', PStr ''PUSH''), (''from_branch'', PStr []),
          (''to_branch'', PStr ''main''), (''timestamp'', PStr ''2024-03-05T09:00:00Z'')]"
  let ?abc = "[(''request_id'', PStr ''abc123''), (''author'', PStr ''alice''),
           (''action'', PStr ''PUSH''), (''from_branch'', PStr []),
           (''to_branch'', PStr ''main''), (''timestamp'', PStr ''2024-03-01T10:15:00Z'')]"
  let ?st = "\<lparr>documents = [?abc], operators = eq_ne_operators\<rparr>"
  have p: "event_doc_of (Some ''push'') ?data = Inr (Produced (Some ?d))"
    by (simp add: event_doc_of_def push_event_doc_def dict_get_def py_split_def py_last_def)
  have f: "find_one (PDict [(''$ne'', PNone)]) (PStr ''PUSH'') ?st = Inr (Some ?abc)"
    by (simp add: find_one_def field_filter_def is_operator_doc_def eq_ne_operators_def
        eq_match_def)
  have s: "store_event ?d ?st = Inr ?st"
    by (simp add: store_event_def f)
  have g: "github_webhook (Some ''push'') ?data ?st = Inr ((''success'', 200), ?st)"
    by (simp add: github_webhook_def p s)
  have n: "filter (\<lambda>x. doc_key x = (PDict [(''$ne'', PNone)], PStr ''PUSH'')) [?abc] = []"
    by (simp add: doc_key_def field_def dict_get_def)
  from p g n show ?thesis by (intro conjI)
qed

subsection \<open>The query\<close>


lemma new_datetime_Inl: "new_datetime d t tz = Inl e \<Longrightarrow> e = ValueError"
  by (auto simp: new_datetime_def split: prod.splits if_splits)

lemma fromisoformat_Inl: "fromisoformat s = Inl e \<Longrightarrow> e = ValueError"
  by (auto simp: fromisoformat_def dest: new_datetime_Inl
      split: if_splits option.splits prod.splits)






lemmas parse_defs = fromisoformat_def find_isoformat_datetime_separator_def byte_at_def
  parse_isoformat_date_def parse_digits_def is_digit_def digit_val_def
  parse_isoformat_time_def is_tz_char_def parse_hh_mm_ss_ff_def parse_fraction_def
  is_fraction_separator_def new_datetime_def days_in_month_def is_leap_def time_start_def
  utf8_len_def Let_def upt_conv_Cons

lemmas render_defs = directive_def pad_def dec_nat.simps digit_char_def month_name_def
  hour12_def

lemmas format_defs = format_event_def format_event_try_def dict_get_def py_replace_def
  py_getitem_def event_text_def py_str_def





subsection \<open>The rendering of the timestamp\<close>

lemma strftime_pattern: "strftime dt ''%d %B %Y - %I:%M %p UTC'' = timestamp_pattern dt"
  by (simp add: directive_def timestamp_pattern_def)

lemma new_datetime_Inr:
  assumes "new_datetime d t tz = Inr dt"
  shows "1 \<le> year dt \<and> year dt \<le> 9999 \<and> 1 \<le> month dt \<and> month dt \<le> 12
         \<and> 1 \<le> day dt \<and> day dt \<le> 31 \<and> hour dt \<le> 23 \<and> minute dt \<le> 59
         \<and> t = (hour dt, minute dt, second dt, microsecond dt) \<and> tzinfo dt = tz"
proof -
  obtain y mo dd where d: "d = (y, mo, dd)" by (cases d)
  obtain h mi s us where t: "t = (h, mi, s, us)" by (cases t)
  have "days_in_month y mo \<le> 31" by (simp add: days_in_month_def)
  with assms show ?thesis
    unfolding d t new_datetime_def by (auto split: if_splits)
qed

lemma fromisoformat_range:
  assumes "fromisoformat s = Inr dt"
  shows "1 \<le> year dt \<and> year dt \<le> 9999 \<and> 1 \<le> month dt \<and> month dt \<le> 12
         \<and> 1 \<le> day dt \<and> day dt \<le> 31 \<and> hour dt \<le> 23 \<and> minute dt \<le> 59"
proof -
  from assms obtain d t tz where "new_datetime d t tz = Inr dt"
    by (auto simp: fromisoformat_def split: if_splits option.splits prod.splits)
  from new_datetime_Inr [OF this] show ?thesis by simp
qed

lemma length_dec_nat_1: "n < 10 \<Longrightarrow> length (dec_nat n) = 1"
  by (simp add: dec_nat.simps)

lemma length_dec_nat_2: "n < 100 \<Longrightarrow> length (dec_nat n) \<le> 2"
  by (subst dec_nat.simps) (simp add: length_dec_nat_1)

lemma length_dec_nat_3: "n < 1000 \<Longrightarrow> length (dec_nat n) \<le> 3"
proof (subst dec_nat.simps)
  assume "n < 1000"
  then have "length (dec_nat (n div 10)) \<le> 2" by (intro length_dec_nat_2) simp
  then show "length (if n < 10 then [digit_char n]
       else dec_nat (n div 10) @ [digit_char (n mod 10)]) \<le> 3" by simp
qed

lemma length_dec_nat_4: "n < 10000 \<Longrightarrow> length (dec_nat n) \<le> 4"
proof (subst dec_nat.simps)
  assume "n < 10000"
  then have "length (dec_nat (n div 10)) \<le> 3" by (intro length_dec_nat_3) simp
  then show "length (if n < 10 then [digit_char n]
       else dec_nat (n div 10) @ [digit_char (n mod 10)]) \<le> 4" by simp
qed

lemma length_dec_nat_pos: "1 \<le> length (dec_nat n)"
  by (subst dec_nat.simps) simp

lemma length_dec_nat_ge: "10 \<le> n \<Longrightarrow> Suc (length (dec_nat (n div 10))) = length (dec_nat n)"
  by (subst (2) dec_nat.simps) simp

lemma length_dec_nat_ge_4: "1000 \<le> n \<Longrightarrow> 4 \<le> length (dec_nat n)"
proof -
  assume a: "1000 \<le> n"
  have 1: "1 \<le> length (dec_nat (n div 10 div 10 div 10))" by (rule length_dec_nat_pos)
  from a have "10 \<le> n div 10 div 10" by simp
  from length_dec_nat_ge [OF this] 1 have 2: "2 \<le> length (dec_nat (n div 10 div 10))" by simp
  from a have "10 \<le> n div 10" by simp
  from length_dec_nat_ge [OF this] 2 have 3: "3 \<le> length (dec_nat (n div 10))" by simp
  from a have "10 \<le> n" by simp
  from length_dec_nat_ge [OF this] 3 show ?thesis by simp
qed

lemma length_pad: "length (dec_nat n) \<le> w \<Longrightarrow> length (pad w n) = w"
  by (simp add: pad_def)

lemma hour12_range: "1 \<le> hour12 h \<and> hour12 h \<le> 12"
  by (simp add: hour12_def)

lemma replace_trailing_Z:
  "CHR ''Z'' \<notin> set body \<Longrightarrow>
     replace_char CHR ''Z'' ''+00:00'' (body @ ''Z'') = body @ ''+00:00''"
  by (induction body) auto

lemma format_event_string_timestamp:
  assumes "map_of d ''author'' = Some a" "map_of d ''action'' = Some b"
    and "map_of d ''timestamp'' = Some (PStr ts)" "ts \<noteq> []"
  shows "format_event d =
     (case fromisoformat (replace_char CHR ''Z'' ''+00:00'' ts) of
        Inl e \<Rightarrow> Inr (''Could not display event due to a data error: ''
                    @ py_str (dict_get d ''request_id'' (PStr ''Unknown ID'')))
      | Inr dt \<Rightarrow> Inr (event_text a b (dict_get d ''from_branch'' (PStr []))
                    (dict_get d ''to_branch'' (PStr [])) (timestamp_pattern dt)))"
proof (cases "fromisoformat (replace_char CHR ''Z'' ''+00:00'' ts)")
  case (Inl e)
  then have "e = ValueError" by (rule fromisoformat_Inl)
  with Inl assms show ?thesis
    by (simp add: format_event_def format_event_try_def py_replace_def py_getitem_def Let_def
        dict_get_def [of d "''timestamp''"])
next
  case (Inr dt)
  with assms show ?thesis
    by (simp add: format_event_def format_event_try_def py_replace_def py_getitem_def Let_def
        dict_get_def [of d "''timestamp''"] strftime_pattern del: strftime.simps)
qed

lemma fromisoformat_Nil: "fromisoformat [] = Inl ValueError"
  by (simp add: fromisoformat_def)

lemma event_text_suffix:
  assumes "b = PStr ''PUSH'' \<or> b = PStr ''PULL_REQUEST'' \<or> b = PStr ''MERGE''"
  shows "\<exists>pre. event_text a b f g t = pre @ t"
  using assms unfolding event_text_def
  by (elim disjE) (simp_all only: if_True if_False pyval.inject list.inject char.inject
      append_assoc [symmetric], (rule exI, rule refl | simp)+)


text \<open>
  Claim C5, as amended: for a record with a readable author and action and a non-empty
  timestamp string, every \<^verbatim>\<open>Z\<close> of the timestamp is replaced by \<^verbatim>\<open>+00:00\<close> (for a
  timestamp whose only \<^verbatim>\<open>Z\<close> is its last character this is the replacement of the
  trailing \<^verbatim>\<open>Z\<close>), the result is parsed, and the formatter returns the error
  sentinel when the parse fails and otherwise the text for the action, which for the
  three actions ends with the timestamp in the pattern: two-digit day, full month
  name, the year in decimal (four digits from the year 1000 on, never more), two-digit
  hour from 1 to 12, two-digit minute, AM or PM, and the literal UTC. For the
  timestamp \<^verbatim>\<open>2024-03-01T10:15:00Z\<close> and one of the three actions the output ends
  with \<^verbatim>\<open>01 March 2024 - 10:15 AM UTC\<close>.
\<close>

theorem timestamp_rendering:
  "(map_of d ''author'' = Some a \<and> map_of d ''action'' = Some b
      \<and> map_of d ''timestamp'' = Some (PStr ts) \<and> ts \<noteq> [] \<longrightarrow>
      format_event d =
        (case fromisoformat (replace_char CHR ''Z'' ''+00:00'' ts) of
           Inl e \<Rightarrow> Inr (''Could not display event due to a data error: ''
                       @ py_str (dict_get d ''request_id'' (PStr ''Unknown ID'')))
         | Inr dt \<Rightarrow> Inr (event_text a b (dict_get d ''from_branch'' (PStr []))
                       (dict_get d ''to_branch'' (PStr [])) (timestamp_pattern dt))))
   \<and> (\<forall>dt. map_of d ''author'' = Some a \<and> map_of d ''action'' = Some b
         \<and> b \<in> {PStr ''PUSH'', PStr ''PULL_REQUEST'', PStr ''MERGE''}
         \<and> map_of d ''timestamp'' = Some (PStr ts)
         \<and> fromisoformat (replace_char CHR ''Z'' ''+00:00'' ts) = Inr dt \<longrightarrow>
         (\<exists>pre. format_event d = Inr (pre @ timestamp_pattern dt)))
   \<and> (\<forall>dt. fromisoformat (replace_char CHR ''Z'' ''+00:00'' ts) = Inr dt \<longrightarrow>
         length (pad 2 (day dt)) = 2 \<and> 1 \<le> month dt \<and> month dt \<le> 12
         \<and> length (dec_nat (year dt)) \<le> 4
         \<and> (1000 \<le> year dt \<longrightarrow> length (dec_nat (year dt)) = 4)
         \<and> length (pad 2 (hour12 (hour dt))) = 2 \<and> length (pad 2 (minute dt)) = 2
         \<and> 1 \<le> hour12 (hour dt) \<and> hour12 (hour dt) \<le> 12)
   \<and> (\<forall>body. CHR ''Z'' \<notin> set body \<longrightarrow>
         replace_char CHR ''Z'' ''+00:00'' (body @ ''Z'') = spec_normalize_timestamp (body @ ''Z''))
   \<and> (map_of d ''author'' = Some a \<and> map_of d ''action'' = Some b
       \<and> b \<in> {PStr ''PUSH'', PStr ''PULL_REQUEST'', PStr ''MERGE''}
       \<and> map_of d ''timestamp'' = Some (PStr ''2024-03-01T10:15:00Z'') \<longrightarrow>
       (\<exists>pre. format_event d = Inr (pre @ ''01 March 2024 - 10:15 AM UTC'')))"
proof (intro conjI impI allI)
  assume "map_of d ''author'' = Some a \<and> map_of d ''action'' = Some b
      \<and> map_of d ''timestamp'' = Some (PStr ts) \<and> ts \<noteq> []"
  then show "format_event d =
        (case fromisoformat (replace_char CHR ''Z'' ''+00:00'' ts) of
           Inl e \<Rightarrow> Inr (''Could not display event due to a data error: ''
                       @ py_str (dict_get d ''request_id'' (PStr ''Unknown ID'')))
         | Inr dt \<Rightarrow> Inr (event_text a b (dict_get d ''from_branch'' (PStr []))
                       (dict_get d ''to_branch'' (PStr [])) (timestamp_pattern dt)))"
    by (intro format_event_string_timestamp) simp_all
next
  fix dt
  assume a: "map_of d ''author'' = Some a \<and> map_of d ''action'' = Some b
         \<and> b \<in> {PStr ''PUSH'', PStr ''PULL_REQUEST'', PStr ''MERGE''}
         \<and> map_of d ''timestamp'' = Some (PStr ts)
         \<and> fromisoformat (replace_char CHR ''Z'' ''+00:00'' ts) = Inr dt"
  have ne: "ts \<noteq> []"
  proof
    assume "ts = []"
    with a fromisoformat_Nil show False by simp
  qed
  have "format_event d = Inr (event_text a b (dict_get d ''from_branch'' (PStr []))
                          (dict_get d ''to_branch'' (PStr [])) (timestamp_pattern dt))"
    using a ne format_event_string_timestamp [of d a b ts] by simp
  moreover have "\<exists>pre. event_text a b f g (timestamp_pattern dt) = pre @ timestamp_pattern dt"
    for f g using a by (intro event_text_suffix) simp
  ultimately show "\<exists>pre. format_event d = Inr (pre @ timestamp_pattern dt)" by metis
next
  fix dt
  assume p: "fromisoformat (replace_char CHR ''Z'' ''+00:00'' ts) = Inr dt"
  note r = fromisoformat_range [OF p]
  have h: "hour12 (hour dt) < 100" using hour12_range [of "hour dt"] by simp
  show "length (pad 2 (day dt)) = 2" using r by (intro length_pad length_dec_nat_2) simp
  show "1 \<le> month dt" using r by simp
  show "month dt \<le> 12" using r by simp
  show y4: "length (dec_nat (year dt)) \<le> 4" using r by (intro length_dec_nat_4) simp
  show "length (dec_nat (year dt)) = 4" if "1000 \<le> year dt"
    using length_dec_nat_ge_4 [OF that] y4 by simp
  show "length (pad 2 (hour12 (hour dt))) = 2" using h by (intro length_pad length_dec_nat_2)
  show "length (pad 2 (minute dt)) = 2" using r by (intro length_pad length_dec_nat_2) simp
  show "1 \<le> hour12 (hour dt)" using hour12_range by simp
  show "hour12 (hour dt) \<le> 12" using hour12_range by simp
next
  fix body :: string
  assume "CHR ''Z'' \<notin> set body"
  then show "replace_char CHR ''Z'' ''+00:00'' (body @ ''Z'') = spec_normalize_timestamp (body @ ''Z'')"
    by (simp add: replace_trailing_Z spec_normalize_timestamp_def)
next
  assume a: "map_of d ''author'' = Some a \<and> map_of d ''action'' = Some b
       \<and> b \<in> {PStr ''PUSH'', PStr ''PULL_REQUEST'', PStr ''MERGE''}
       \<and> map_of d ''timestamp'' = Some (PStr ''2024-03-01T10:15:00Z'')"
  have p: "fromisoformat (replace_char CHR ''Z'' ''+00:00'' ''2024-03-01T10:15:00Z'')
      = Inr \<lparr>year = 2024, month = 3, day = 1, hour = 10, minute = 15, second = 0,
              microsecond = 0, tzinfo = Some 0\<rparr>"
    by (simp add: parse_defs)
  have t: "timestamp_pattern \<lparr>year = 2024, month = 3, day = 1, hour = 10, minute = 15,
              second = 0, microsecond = 0, tzinfo = Some 0\<rparr> = ''01 March 2024 - 10:15 AM UTC''"
    by (simp add: timestamp_pattern_def pad_def dec_nat.simps digit_char_def month_name_def
        hour12_def)
  have "format_event d = Inr (event_text a b (dict_get d ''from_branch'' (PStr []))
       (dict_get d ''to_branch'' (PStr [])) ''01 March 2024 - 10:15 AM UTC'')"
    using a format_event_string_timestamp [of d a b "''2024-03-01T10:15:00Z''"]
    by (simp only: p t sum.case) simp
  moreover have "\<exists>pre. event_text a b f g ''01 March 2024 - 10:15 AM UTC''
      = pre @ ''01 March 2024 - 10:15 AM UTC''" for f g
    using a by (intro event_text_suffix) simp
  ultimately show "\<exists>pre. format_event d = Inr (pre @ ''01 March 2024 - 10:15 AM UTC'')"
    by metis
qed

text \<open>
  The witness of C5: the stored record of the specification's push scenario.
\<close>

theorem timestamp_rendering_witness:
  "format_event [(''request_id'', PStr ''abc123''), (''author'', PStr ''alice''),
        (''action'', PStr ''PUSH''), (''from_branch'', PStr []),
        (''to_branch'', PStr ''main''), (''timestamp'', PStr ''2024-03-01T10:15:00Z'')]
     = Inr ''alice pushed to main on 01 March 2024 - 10:15 AM UTC''"
proof -
  let ?d = "[(''request_id'', PStr ''abc123''), (''author'', PStr ''alice''),
        (''action'', PStr ''PUSH''), (''from_branch'', PStr []),
        (''to_branch'', PStr ''main''), (''timestamp'', PStr ''2024-03-01T10:15:00Z'')]"
  have h: "map_of ?d ''author'' = Some (PStr ''alice'') \<and> map_of ?d ''action'' = Some (PStr ''PUSH'')
      \<and> map_of ?d ''timestamp'' = Some (PStr ''2024-03-01T10:15:00Z'')
      \<and> ''2024-03-01T10:15:00Z'' \<noteq> []" by simp
  have p: "fromisoformat (replace_char CHR ''Z'' ''+00:00'' ''2024-03-01T10:15:00Z'')
      = Inr \<lparr>year = 2024, month = 3, day = 1, hour = 10, minute = 15, second = 0,
              microsecond = 0, tzinfo = Some 0\<rparr>"
    by (simp add: parse_defs)
  have t: "timestamp_pattern \<lparr>year = 2024, month = 3, day = 1, hour = 10, minute = 15,
              second = 0, microsecond = 0, tzinfo = Some 0\<rparr> = ''01 March 2024 - 10:15 AM UTC''"
    by (simp add: timestamp_pattern_def pad_def dec_nat.simps digit_char_def month_name_def
        hour12_def)
  from timestamp_rendering [THEN conjunct1, rule_format, OF h]
  show ?thesis
    by (simp only: p t sum.case) (simp add: event_text_def py_str_def dict_get_def)
qed

text \<open>
  The counterexample of C5, on four records. In \<^verbatim>\<open>2024-03-01Z10:15:00Z\<close> the separator
  is a \<^verbatim>\<open>Z\<close> too: replacing only the trailing \<^verbatim>\<open>Z\<close> gives a string that parses and
  renders as \<^verbatim>\<open>01 March 2024 - 10:15 AM UTC\<close>, while the formatter replaces both and
  takes the error path. The year 999 is rendered with three digits. With the timestamp
  \<^verbatim>\<open>2024-03-01T10:15:00Z\<close>, a record whose action is none of the three has an output
  without the timestamp, and a record without author gets the error sentinel.
\<close>

theorem timestamp_rendering_counterexample:
  "spec_timestamp_text ''2024-03-01Z10:15:00Z'' = Inr ''01 March 2024 - 10:15 AM UTC''
   \<and> format_event [(''request_id'', PStr ''abc123''), (''author'', PStr ''alice''),
        (''action'', PStr ''PUSH''), (''from_branch'', PStr []),
        (''to_branch'', PStr ''main''), (''timestamp'', PStr ''2024-03-01Z10:15:00Z'')]
     = Inr ''Could not display event due to a data error: abc123''
   \<and> format_event [(''request_id'', PStr ''abc123''), (''author'', PStr ''alice''),
        (''action'', PStr ''PUSH''), (''from_branch'', PStr []),
        (''to_branch'', PStr ''main''), (''timestamp'', PStr ''0999-01-01T00:00:00Z'')]
     = Inr ''alice pushed to main on 01 January 999 - 12:00 AM UTC''
   \<and> format_event [(''request_id'', PStr ''abc123''), (''author'', PStr ''alice''),
        (''action'', PStr ''DELETE''), (''from_branch'', PStr []),
        (''to_branch'', PStr ''main''), (''timestamp'', PStr ''2024-03-01T10:15:00Z'')]
     = Inr ''Unknown action: DELETE by alice''
   \<and> format_event [(''request_id'', PStr ''abc123''),
        (''action'', PStr ''PUSH''), (''from_branch'', PStr []),
        (''to_branch'', PStr ''main''), (''timestamp'', PStr ''2024-03-01T10:15:00Z'')]
     = Inr ''Could not display event due to a data error: abc123''"
proof -
  have n: "spec_normalize_timestamp ''2024-03-01Z10:15:00Z'' = ''2024-03-01Z10:15:00+00:00''"
    by (simp add: spec_normalize_timestamp_def)
  have p: "fromisoformat ''2024-03-01Z10:15:00+00:00''
      = Inr \<lparr>year = 2024, month = 3, day = 1, hour = 10, minute = 15, second = 0,
              microsecond = 0, tzinfo = Some 0\<rparr>"
    by (simp add: parse_defs)
  have t: "timestamp_pattern \<lparr>year = 2024, month = 3, day = 1, hour = 10, minute = 15,
              second = 0, microsecond = 0, tzinfo = Some 0\<rparr> = ''01 March 2024 - 10:15 AM UTC''"
    by (simp add: timestamp_pattern_def pad_def dec_nat.simps digit_char_def month_name_def
        hour12_def)
  have A: "spec_timestamp_text ''2024-03-01Z10:15:00Z'' = Inr ''01 March 2024 - 10:15 AM UTC''"
    by (simp only: spec_timestamp_text_def n strftime_pattern p bind_Inr t)
  have q: "fromisoformat (replace_char CHR ''Z'' ''+00:00'' ''2024-03-01Z10:15:00Z'')
      = Inl ValueError"
    by (simp add: parse_defs)
  have B: "format_event [(''request_id'', PStr ''abc123''), (''author'', PStr ''alice''),
        (''action'', PStr ''PUSH''), (''from_branch'', PStr []),
        (''to_branch'', PStr ''main''), (''timestamp'', PStr ''2024-03-01Z10:15:00Z'')]
     = Inr ''Could not display event due to a data error: abc123''"
    by (simp add: format_event_def format_event_try_def py_replace_def py_getitem_def
        dict_get_def py_str_def q del: replace_char.simps)
  have C: "format_event [(''request_id'', PStr ''abc123''), (''author'', PStr ''alice''),
        (''action'', PStr ''PUSH''), (''from_branch'', PStr []),
        (''to_branch'', PStr ''main''), (''timestamp'', PStr ''0999-01-01T00:00:00Z'')]
     = Inr ''alice pushed to main on 01 January 999 - 12:00 AM UTC''"
    by (simp add: format_defs parse_defs render_defs)
  have D: "format_event [(''request_id'', PStr ''abc123''), (''author'', PStr ''alice''),
        (''action'', PStr ''DELETE''), (''from_branch'', PStr []),
        (''to_branch'', PStr ''main''), (''timestamp'', PStr ''2024-03-01T10:15:00Z'')]
     = Inr ''Unknown action: DELETE by alice''"
    by (simp add: format_defs parse_defs render_defs)
  have E: "format_event [(''request_id'', PStr ''abc123''),
        (''action'', PStr ''PUSH''), (''from_branch'', PStr []),
        (''to_branch'', PStr ''main''), (''timestamp'', PStr ''2024-03-01T10:15:00Z'')]
     = Inr ''Could not display event due to a data error: abc123''"
    by (simp add: format_defs)
  from A B C D E show ?thesis by (intro conjI)
qed

subsection \<open>Timestamps with an offset\<close>

lemma upt_two: "[p..<p + 2] = [p, Suc p]"
  by (simp add: upt_rec [of p] upt_rec [of "Suc p"])

lemma parse_digits_two:
  assumes "parse_digits s p 2 = Some h"
  shows "h = 10 * digit_val (byte_at s p) + digit_val (byte_at s (p + 1))
     \<and> is_digit (byte_at s p) \<and> is_digit (byte_at s (p + 1))"
  using assms by (simp add: parse_digits_def upt_two split: if_splits)

lemma parse_hh_mm_ss_ff_hour:
  assumes "parse_hh_mm_ss_ff s p e = Some (tr, h, m, sec, us)"
  shows "parse_digits s p 2 = Some h"
proof (cases "parse_digits s p 2")
  case None
  with assms show ?thesis by (simp add: parse_hh_mm_ss_ff_def)
next
  case (Some h')
  with assms have "h = h'"
    by (simp add: parse_hh_mm_ss_ff_def Let_def split: if_splits option.splits prod.splits)
  with Some show ?thesis by simp
qed

lemma parse_hh_mm_ss_ff_minute:
  assumes "parse_hh_mm_ss_ff s p e = Some (tr, h, m, sec, us)"
    and "byte_at s (p + 2) = CHR '':''" and "p + 3 < e"
  shows "parse_digits s (p + 3) 2 = Some m"
proof -
  from parse_hh_mm_ss_ff_hour [OF assms(1)] have h: "parse_digits s p 2 = Some h" .
  show ?thesis
  proof (cases "parse_digits s (p + 3) 2")
    case None
    with assms h show ?thesis
      by (simp add: parse_hh_mm_ss_ff_def Let_def is_fraction_separator_def)
  next
    case (Some m')
    with assms h have "m = m'"
      by (simp add: parse_hh_mm_ss_ff_def Let_def is_fraction_separator_def
          split: if_splits option.splits prod.splits)
    with Some show ?thesis by simp
  qed
qed

lemma takeWhile_length_ge:
  "(\<forall>k<n. k < length xs \<and> P (xs ! k)) \<Longrightarrow> n \<le> length (takeWhile P xs)"
proof (induction xs arbitrary: n)
  case Nil
  then show ?case by (cases n) auto
next
  case (Cons x xs)
  show ?case
  proof (cases n)
    case 0
    then show ?thesis by simp
  next
    case (Suc n')
    with Cons.prems have px: "P x" by auto
    have "\<forall>k<n'. k < length xs \<and> P (xs ! k)"
    proof (intro allI impI)
      fix k assume "k < n'"
      with Suc have "Suc k < n" by simp
      with Cons.prems have "Suc k < length (x # xs) \<and> P ((x # xs) ! Suc k)" by blast
      then show "k < length xs \<and> P (xs ! k)" by simp
    qed
    from Cons.IH [OF this] px Suc show ?thesis by simp
  qed
qed

lemma is_digit_byte_at: "is_digit (byte_at s i) \<Longrightarrow> i < length s"
  by (auto simp: byte_at_def is_digit_def split: if_splits)

lemma is_digit_not_tz: "is_digit c \<Longrightarrow> \<not> is_tz_char c"
  by (auto simp: is_digit_def is_tz_char_def)

lemma colon_byte_at: "byte_at s i = CHR '':'' \<Longrightarrow> i < length s"
  by (auto simp: byte_at_def split: if_splits)

lemma tz_after_minute_digit:
  assumes "is_digit (byte_at s p)" "is_digit (byte_at s (p + 1))"
    and "byte_at s (p + 2) = CHR '':''" "is_digit (byte_at s (p + 3))"
  shows "p + 3 < p + length (takeWhile (\<lambda>c. \<not> is_tz_char c) (drop p s))"
proof -
  have b: "k < length (drop p s) \<and> \<not> is_tz_char (drop p s ! k)" if "k < 4" for k
  proof -
    from that have "k = 0 \<or> k = 1 \<or> k = 2 \<or> k = 3" by auto
    then have "p + k < length s \<and> \<not> is_tz_char (byte_at s (p + k))"
      using assms is_digit_byte_at [of s p] is_digit_byte_at [of s "p + 1"]
        is_digit_byte_at [of s "p + 3"] colon_byte_at [of s "p + 2"]
      by (auto simp: is_digit_not_tz) (simp add: is_tz_char_def)
    then show ?thesis by (auto simp: byte_at_def)
  qed
  then have "\<forall>k<4. k < length (drop p s) \<and> \<not> is_tz_char (drop p s ! k)" by blast
  from takeWhile_length_ge [OF this] show ?thesis by simp
qed

lemma fromisoformat_time:
  assumes "fromisoformat s = Inr dt" "tzinfo dt = Some off"
  shows "\<exists>sep tr. find_isoformat_datetime_separator s = Some sep
     \<and> parse_hh_mm_ss_ff s (time_start s sep)
          (time_start s sep
           + length (takeWhile (\<lambda>c. \<not> is_tz_char c) (drop (time_start s sep) s)))
        = Some (tr, hour dt, minute dt, second dt, microsecond dt)"
proof -
  from assms(1) obtain sep d where
    sep: "find_isoformat_datetime_separator s = Some sep"
    and d: "parse_isoformat_date s sep = Some d"
    by (auto simp: fromisoformat_def split: if_splits option.splits)
  have len: "sep < length s"
  proof (rule ccontr)
    assume "\<not> sep < length s"
    with assms(1) sep d have "new_datetime d (0, 0, 0, 0) None = Inr dt"
      by (simp add: fromisoformat_def split: if_splits)
    from new_datetime_Inr [OF this] assms(2) show False by simp
  qed
  with assms(1) sep d obtain t tz where
    pt: "parse_isoformat_time s (time_start s sep) = Some (t, tz)"
    and nd: "new_datetime d t tz = Inr dt"
    by (auto simp: fromisoformat_def split: if_splits option.splits)
  from new_datetime_Inr [OF nd]
  have t: "t = (hour dt, minute dt, second dt, microsecond dt)" by simp
  from pt obtain tr where
    "parse_hh_mm_ss_ff s (time_start s sep)
          (time_start s sep
           + length (takeWhile (\<lambda>c. \<not> is_tz_char c) (drop (time_start s sep) s)))
        = Some (tr, t)"
    by (auto simp: parse_isoformat_time_def Let_def split: option.splits if_splits prod.splits)
  with sep t show ?thesis by auto
qed

lemma fromisoformat_wall_clock:
  assumes "fromisoformat s = Inr dt" "tzinfo dt = Some off"
  shows "\<exists>sep. find_isoformat_datetime_separator s = Some sep
     \<and> hour dt = 10 * digit_val (byte_at s (time_start s sep))
                 + digit_val (byte_at s (time_start s sep + 1))
     \<and> (byte_at s (time_start s sep + 2) = CHR '':''
          \<and> is_digit (byte_at s (time_start s sep + 3)) \<longrightarrow>
        minute dt = 10 * digit_val (byte_at s (time_start s sep + 3))
                    + digit_val (byte_at s (time_start s sep + 4)))"
proof -
  from fromisoformat_time [OF assms] obtain sep tr where
    sep: "find_isoformat_datetime_separator s = Some sep"
    and ph: "parse_hh_mm_ss_ff s (time_start s sep)
          (time_start s sep
           + length (takeWhile (\<lambda>c. \<not> is_tz_char c) (drop (time_start s sep) s)))
        = Some (tr, hour dt, minute dt, second dt, microsecond dt)"
    by blast
  let ?p = "time_start s sep"
  note h = parse_digits_two [OF parse_hh_mm_ss_ff_hour [OF ph]]
  have m: "minute dt = 10 * digit_val (byte_at s (?p + 3)) + digit_val (byte_at s (?p + 4))"
    if c: "byte_at s (?p + 2) = CHR '':''" and g: "is_digit (byte_at s (?p + 3))"
  proof -
    from h have "is_digit (byte_at s ?p)" "is_digit (byte_at s (?p + 1))" by simp_all
    from tz_after_minute_digit [OF this c g]
    have "?p + 3 < ?p + length (takeWhile (\<lambda>c. \<not> is_tz_char c) (drop ?p s))" .
    from parse_digits_two [OF parse_hh_mm_ss_ff_minute [OF ph c this]]
    show ?thesis by (simp add: add.assoc add.commute)
  qed
  from sep h m show ?thesis by blast
qed

lemma timestamp_pattern_UTC: "\<exists>pre. timestamp_pattern dt = pre @ '' UTC''"
  unfolding timestamp_pattern_def
  by (rule exI [of _ "pad 2 (day dt) @ '' '' @ month_name (month dt) @ '' ''
        @ dec_nat (year dt) @ '' - '' @ pad 2 (hour12 (hour dt)) @ '':''
        @ pad 2 (minute dt) @ '' '' @ (if hour dt < 12 then ''AM'' else ''PM'')"]) simp

text \<open>
  Claim C9, as amended: for a record with a readable author and one of the three
  actions whose timestamp parses with an offset other than zero, the output of the
  formatter ends with the timestamp in the pattern, rendered from the fields as they
  were read from the text: the hour is the number written by the two digits at the
  start of the time and, when a colon and a digit follow, the minute is the number
  written after the colon; the rendering is the one the same fields would have with
  offset zero, and it ends with the literal UTC.
\<close>

theorem offset_not_converted:
  "map_of d ''author'' = Some a \<and> map_of d ''action'' = Some b
     \<and> b \<in> {PStr ''PUSH'', PStr ''PULL_REQUEST'', PStr ''MERGE''}
     \<and> map_of d ''timestamp'' = Some (PStr ts)
     \<and> fromisoformat (replace_char CHR ''Z'' ''+00:00'' ts) = Inr dt
     \<and> tzinfo dt = Some off \<and> off \<noteq> 0 \<longrightarrow>
   (\<exists>pre. format_event d = Inr (pre @ timestamp_pattern dt))
   \<and> timestamp_pattern dt = timestamp_pattern (dt\<lparr>tzinfo := Some 0\<rparr>)
   \<and> (\<exists>pre. timestamp_pattern dt = pre @ '' UTC'')
   \<and> (\<exists>sep. find_isoformat_datetime_separator (replace_char CHR ''Z'' ''+00:00'' ts) = Some sep
        \<and> hour dt
          = 10 * digit_val (byte_at (replace_char CHR ''Z'' ''+00:00'' ts)
                              (time_start (replace_char CHR ''Z'' ''+00:00'' ts) sep))
            + digit_val (byte_at (replace_char CHR ''Z'' ''+00:00'' ts)
                              (time_start (replace_char CHR ''Z'' ''+00:00'' ts) sep + 1))
        \<and> (byte_at (replace_char CHR ''Z'' ''+00:00'' ts)
                              (time_start (replace_char CHR ''Z'' ''+00:00'' ts) sep + 2) = CHR '':''
             \<and> is_digit (byte_at (replace_char CHR ''Z'' ''+00:00'' ts)
                              (time_start (replace_char CHR ''Z'' ''+00:00'' ts) sep + 3)) \<longrightarrow>
           minute dt
           = 10 * digit_val (byte_at (replace_char CHR ''Z'' ''+00:00'' ts)
                              (time_start (replace_char CHR ''Z'' ''+00:00'' ts) sep + 3))
             + digit_val (byte_at (replace_char CHR ''Z'' ''+00:00'' ts)
                              (time_start (replace_char CHR ''Z'' ''+00:00'' ts) sep + 4))))"
proof (intro impI)
  let ?s = "replace_char CHR ''Z'' ''+00:00'' ts"
  assume a: "map_of d ''author'' = Some a \<and> map_of d ''action'' = Some b
     \<and> b \<in> {PStr ''PUSH'', PStr ''PULL_REQUEST'', PStr ''MERGE''}
     \<and> map_of d ''timestamp'' = Some (PStr ts)
     \<and> fromisoformat ?s = Inr dt \<and> tzinfo dt = Some off \<and> off \<noteq> 0"
  then have p: "fromisoformat ?s = Inr dt" and tz: "tzinfo dt = Some off" by simp_all
  have ne: "ts \<noteq> []"
  proof
    assume "ts = []"
    with p fromisoformat_Nil show False by simp
  qed
  have "format_event d = Inr (event_text a b (dict_get d ''from_branch'' (PStr []))
                          (dict_get d ''to_branch'' (PStr [])) (timestamp_pattern dt))"
    using a ne format_event_string_timestamp [of d a b ts] by simp
  moreover have "\<exists>pre. event_text a b f g (timestamp_pattern dt) = pre @ timestamp_pattern dt"
    for f g using a by (intro event_text_suffix) simp
  ultimately have 1: "\<exists>pre. format_event d = Inr (pre @ timestamp_pattern dt)" by metis
  have 2: "timestamp_pattern dt = timestamp_pattern (dt\<lparr>tzinfo := Some 0\<rparr>)"
    by (simp add: timestamp_pattern_def)
  note 3 = timestamp_pattern_UTC [of dt]
  note 4 = fromisoformat_wall_clock [OF p tz]
  from 1 2 3 4 show "(\<exists>pre. format_event d = Inr (pre @ timestamp_pattern dt))
   \<and> timestamp_pattern dt = timestamp_pattern (dt\<lparr>tzinfo := Some 0\<rparr>)
   \<and> (\<exists>pre. timestamp_pattern dt = pre @ '' UTC'')
   \<and> (\<exists>sep. find_isoformat_datetime_separator ?s = Some sep
        \<and> hour dt = 10 * digit_val (byte_at ?s (time_start ?s sep))
            + digit_val (byte_at ?s (time_start ?s sep + 1))
        \<and> (byte_at ?s (time_start ?s sep + 2) = CHR '':''
             \<and> is_digit (byte_at ?s (time_start ?s sep + 3)) \<longrightarrow>
           minute dt = 10 * digit_val (byte_at ?s (time_start ?s sep + 3))
             + digit_val (byte_at ?s (time_start ?s sep + 4))))"
    by (intro conjI)
qed


text \<open>
  The witness of C9: 10:15 at offset +05:30 is rendered as 10:15 AM UTC.
\<close>

theorem offset_not_converted_witness:
  "\<exists>pre. format_event [(''request_id'', PStr ''abc123''), (''author'', PStr ''alice''),
        (''action'', PStr ''PUSH''), (''from_branch'', PStr []),
        (''to_branch'', PStr ''main''), (''timestamp'', PStr ''2024-03-01T10:15:00+05:30'')]
     = Inr (pre @ ''01 March 2024 - 10:15 AM UTC'')"
proof -
  let ?d = "[(''request_id'', PStr ''abc123''), (''author'', PStr ''alice''),
        (''action'', PStr ''PUSH''), (''from_branch'', PStr []),
        (''to_branch'', PStr ''main''), (''timestamp'', PStr ''2024-03-01T10:15:00+05:30'')]"
  let ?dt = "\<lparr>year = 2024, month = 3, day = 1, hour = 10, minute = 15, second = 0,
              microsecond = 0, tzinfo = Some 19800000000\<rparr>"
  have p: "fromisoformat (replace_char CHR ''Z'' ''+00:00'' ''2024-03-01T10:15:00+05:30'') = Inr ?dt"
    by (simp add: parse_defs)
  have h: "map_of ?d ''author'' = Some (PStr ''alice'') \<and> map_of ?d ''action'' = Some (PStr ''PUSH'')
      \<and> PStr ''PUSH'' \<in> {PStr ''PUSH'', PStr ''PULL_REQUEST'', PStr ''MERGE''}
      \<and> map_of ?d ''timestamp'' = Some (PStr ''2024-03-01T10:15:00+05:30'')
      \<and> fromisoformat (replace_char CHR ''Z'' ''+00:00'' ''2024-03-01T10:15:00+05:30'') = Inr ?dt
      \<and> tzinfo ?dt = Some 19800000000 \<and> (19800000000::int) \<noteq> 0"
    using p by simp
  have t: "timestamp_pattern ?dt = ''01 March 2024 - 10:15 AM UTC''"
    by (simp add: timestamp_pattern_def pad_def dec_nat.simps digit_char_def month_name_def
        hour12_def)
  from offset_not_converted [rule_format, OF h, THEN conjunct1]
  show ?thesis by (simp only: t)
qed

text \<open>
  The counterexample of C9: the timestamp \<^verbatim>\<open>2024-03-01T10:15:00+05:30\<close> parses with
  the offset of five and a half hours, yet the output for a record whose action is
  none of the three holds no time and does not end with UTC, and a record without
  author gets the error sentinel.
\<close>

theorem offset_rendering_counterexample:
  "fromisoformat (replace_char CHR ''Z'' ''+00:00'' ''2024-03-01T10:15:00+05:30'')
     = Inr \<lparr>year = 2024, month = 3, day = 1, hour = 10, minute = 15, second = 0,
            microsecond = 0, tzinfo = Some 19800000000\<rparr>
   \<and> format_event [(''request_id'', PStr ''abc123''), (''author'', PStr ''alice''),
        (''action'', PStr ''DELETE''), (''from_branch'', PStr []),
        (''to_branch'', PStr ''main''), (''timestamp'', PStr ''2024-03-01T10:15:00+05:30'')]
     = Inr ''Unknown action: DELETE by alice''
   \<and> format_event [(''request_id'', PStr ''abc123''),
        (''action'', PStr ''PUSH''), (''from_branch'', PStr []),
        (''to_branch'', PStr ''main''), (''timestamp'', PStr ''2024-03-01T10:15:00+05:30'')]
     = Inr ''Could not display event due to a data error: abc123''"
proof -
  have A: "fromisoformat (replace_char CHR ''Z'' ''+00:00'' ''2024-03-01T10:15:00+05:30'')
     = Inr \<lparr>year = 2024, month = 3, day = 1, hour = 10, minute = 15, second = 0,
            microsecond = 0, tzinfo = Some 19800000000\<rparr>"
    by (simp add: parse_defs)
  have B: "format_event [(''request_id'', PStr ''abc123''), (''author'', PStr ''alice''),
        (''action'', PStr ''DELETE''), (''from_branch'', PStr []),
        (''to_branch'', PStr ''main''), (''timestamp'', PStr ''2024-03-01T10:15:00+05:30'')]
     = Inr ''Unknown action: DELETE by alice''"
    by (simp add: format_defs parse_defs render_defs)
  have C: "format_event [(''request_id'', PStr ''abc123''),
        (''action'', PStr ''PUSH''), (''from_branch'', PStr []),
        (''to_branch'', PStr ''main''), (''timestamp'', PStr ''2024-03-01T10:15:00+05:30'')]
     = Inr ''Could not display event due to a data error: abc123''"
    by (simp add: format_defs)
  from A B C show ?thesis by (intro conjI)
qed

end
